theory Spec2Isabelle
  imports Complex_Main "HOL-Library.AList" "HOL-Library.Monad_Syntax" "HOL-Library.Multiset"
begin

section \<open>Python values as they reach the extractor\<close>

text \<open>
  The extractor \<^verbatim>\<open>scripts/extract_yahoo.py\<close> works on deserialised JSON.  A Python
  float is either a finite double, whose value is a rational number, or one of the
  three special values.  Only comparison, truncation and truthiness of floats are
  used below, and they are exact on the rational value.  An object is the list of its
  members in document order, with distinct keys.  The methods of the client keep their
  names, without the leading underscore.
\<close>

datatype pyfloat = Finite rat | PosInf | NegInf | NaN

datatype json =
    JNull
  | JBool bool
  | JInt int
  | JFloat pyfloat
  | JStr string
  | JList "json list"
  | JDict "(string \<times> json) list"

text \<open>
  A Python \<^verbatim>\<open>dict\<close> keeps insertion order; it is an association list read
  with \<^const>\<open>map_of\<close> and written with \<^const>\<open>AList.update\<close> (which replaces the
  value of a present key in place and appends a new key at the end).
\<close>

type_synonym ('k, 'v) pydict = "('k \<times> 'v) list"

text \<open>\<^verbatim>\<open>d.get(k, default)\<close> on such a dict.\<close>

definition dget :: "('k, 'v) pydict \<Rightarrow> 'k \<Rightarrow> 'v \<Rightarrow> 'v" where
  "dget d k dflt = (case map_of d k of Some v \<Rightarrow> v | None \<Rightarrow> dflt)"

subsection \<open>Operations that can raise\<close>

text \<open>
  Every handler of the source is \<^verbatim>\<open>except Exception\<close>, so the kind of an exception
  is never observed: an operation that can raise returns an option, and \<open>None\<close>
  stands for any exception raised.
\<close>

text \<open>Truth value of a value in \<^verbatim>\<open>if x\<close>, \<^verbatim>\<open>not x\<close> and \<^verbatim>\<open>x or y\<close>.\<close>

fun truthy :: "json \<Rightarrow> bool" where
  "truthy JNull = False"
| "truthy (JBool b) = b"
| "truthy (JInt n) = (n \<noteq> 0)"
| "truthy (JFloat f) = (f \<noteq> Finite 0)"
| "truthy (JStr s) = (s \<noteq> [])"
| "truthy (JList xs) = (xs \<noteq> [])"
| "truthy (JDict kvs) = (kvs \<noteq> [])"

text \<open>\<^verbatim>\<open>x.get(k, default)\<close>: only a dict has the method (AttributeError otherwise).\<close>

fun py_get :: "json \<Rightarrow> string \<Rightarrow> json \<Rightarrow> json option" where
  "py_get (JDict kvs) k dflt = Some (dget kvs k dflt)"
| "py_get _ k dflt = None"

text \<open>
  \<^verbatim>\<open>for item in x\<close>: a list gives its elements, a dict its keys, a string its
  characters as strings; anything else is not iterable (TypeError).
\<close>

fun py_iter :: "json \<Rightarrow> json list option" where
  "py_iter (JList xs) = Some xs"
| "py_iter (JDict kvs) = Some (map (\<lambda>kv. JStr (fst kv)) kvs)"
| "py_iter (JStr s) = Some (map (\<lambda>c. JStr [c]) s)"
| "py_iter _ = None"

fun py_len :: "json \<Rightarrow> nat option" where
  "py_len (JList xs) = Some (length xs)"
| "py_len (JDict kvs) = Some (length kvs)"
| "py_len (JStr s) = Some (length s)"
| "py_len _ = None"

text \<open>
  \<^verbatim>\<open>x[i]\<close> for the literal indices 0 and 1: IndexError out of range, KeyError on
  a dict (its keys are strings), TypeError on a value that is not subscriptable.
\<close>

fun py_index :: "json \<Rightarrow> nat \<Rightarrow> json option" where
  "py_index (JList xs) i = (if i < length xs then Some (xs ! i) else None)"
| "py_index (JStr s) i = (if i < length s then Some (JStr [s ! i]) else None)"
| "py_index _ i = None"

text \<open>\<^verbatim>\<open>range(n)\<close>: \<^verbatim>\<open>n\<close> must be an integer (a bool is one).\<close>

fun py_range :: "json \<Rightarrow> nat list option" where
  "py_range (JInt n) = Some [0..<nat n]"
| "py_range (JBool b) = Some [0..<(if b then 1 else 0)]"
| "py_range _ = None"

text \<open>\<^verbatim>\<open>str(i)\<close> of an integer.\<close>

definition digit :: "nat \<Rightarrow> char" where
  "digit d = ''0123456789'' ! d"

fun str_nat :: "nat \<Rightarrow> string" where
  "str_nat n = (if n < 10 then [digit n] else str_nat (n div 10) @ [digit (n mod 10)])"

declare str_nat.simps [simp del]

definition str_int :: "int \<Rightarrow> string" where
  "str_int i = (if i < 0 then CHR ''-'' # str_nat (nat (- i)) else str_nat (nat i))"

text \<open>
  The conversions of the Python runtime that depend on the text of a string or on
  floating-point rounding are parameters of the model; every theorem holds for all of
  them.  \<open>None\<close> is ValueError or OverflowError.
\<close>

record builtins =
  int_of_str :: "string \<Rightarrow> int option"
  float_of_str :: "string \<Rightarrow> pyfloat option"
  float_of_int :: "int \<Rightarrow> pyfloat option"
  str_of :: "json \<Rightarrow> string"
  cents_of :: "rat \<Rightarrow> int"

text \<open>Truncation towards zero, as \<^verbatim>\<open>int(f)\<close> does for a finite float.\<close>

definition trunc :: "rat \<Rightarrow> int" where
  "trunc q = (if 0 \<le> q then \<lfloor>q\<rfloor> else \<lceil>q\<rceil>)"

fun float_to_int :: "pyfloat \<Rightarrow> int option" where
  "float_to_int (Finite q) = Some (trunc q)"
| "float_to_int _ = None"

fun py_int :: "builtins \<Rightarrow> json \<Rightarrow> int option" where
  "py_int bi (JInt n) = Some n"
| "py_int bi (JBool b) = Some (if b then 1 else 0)"
| "py_int bi (JFloat f) = float_to_int f"
| "py_int bi (JStr s) = int_of_str bi s"
| "py_int bi _ = None"

text \<open>\<^verbatim>\<open>float(x)\<close>; an integer up to \<open>2 ^ 53\<close> in absolute value converts exactly.\<close>

fun py_float :: "builtins \<Rightarrow> json \<Rightarrow> pyfloat option" where
  "py_float bi (JFloat f) = Some f"
| "py_float bi (JInt n) =
     (if \<bar>n\<bar> \<le> 2 ^ 53 then Some (Finite (of_int n)) else float_of_int bi n)"
| "py_float bi (JBool b) = Some (Finite (if b then 1 else 0))"
| "py_float bi (JStr s) = float_of_str bi s"
| "py_float bi _ = None"

text \<open>\<^verbatim>\<open>round((f % 1) * 100)\<close>: ValueError when \<^verbatim>\<open>f\<close> is not finite.\<close>

fun cents :: "builtins \<Rightarrow> pyfloat \<Rightarrow> int option" where
  "cents bi (Finite q) = Some (cents_of bi q)"
| "cents bi _ = None"

text \<open>The text an f-string inserts for a value.\<close>

fun py_str :: "builtins \<Rightarrow> json \<Rightarrow> string" where
  "py_str bi (JStr s) = s"
| "py_str bi (JInt n) = str_int n"
| "py_str bi v = str_of bi v"

text \<open>
  A value used as a dict key: lists and dicts are unhashable (TypeError); equal
  numbers are the same key, whatever their type.
\<close>

fun hash_key :: "json \<Rightarrow> json option" where
  "hash_key (JList xs) = None"
| "hash_key (JDict kvs) = None"
| "hash_key (JBool b) = Some (JInt (if b then 1 else 0))"
| "hash_key (JFloat (Finite q)) = Some (if of_int \<lfloor>q\<rfloor> = q then JInt \<lfloor>q\<rfloor> else JFloat (Finite q))"
| "hash_key v = Some v"

section \<open>League settings\<close>

type_synonym settings = "(string, json) pydict"

definition settings_keys :: "string list" where
  "settings_keys = [''num_teams'', ''end_week'', ''start_week'', ''playoff_start_week'']"

text \<open>Lines 430-437 and 442-444: \<^verbatim>\<open>if key in item: settings[key] = int(item[key])\<close>.\<close>

fun copy_int_keys ::
  "builtins \<Rightarrow> string list \<Rightarrow> (string, json) pydict \<Rightarrow> settings \<Rightarrow> settings option" where
  "copy_int_keys bi [] item settings = Some settings"
| "copy_int_keys bi (key # keys) item settings =
     (case map_of item key of
        None \<Rightarrow> copy_int_keys bi keys item settings
      | Some v \<Rightarrow>
          do { n \<leftarrow> py_int bi v;
               copy_int_keys bi keys item (AList.update key (JInt n) settings) })"

text \<open>Lines 426-428: \<^verbatim>\<open>settings.update(s)\<close> for every dict of the settings list.\<close>

definition dict_update :: "('k, 'v) pydict \<Rightarrow> ('k, 'v) pydict \<Rightarrow> ('k, 'v) pydict" where
  "dict_update d other = foldl (\<lambda>acc kv. AList.update (fst kv) (snd kv) acc) d other"

fun merge_settings :: "json list \<Rightarrow> settings \<Rightarrow> settings" where
  "merge_settings [] settings = settings"
| "merge_settings (s # setting_list) settings =
     (case s of
        JDict kvs \<Rightarrow> merge_settings setting_list (dict_update settings kvs)
      | _ \<Rightarrow> merge_settings setting_list settings)"

text \<open>Lines 421-437: the loop over the league data.\<close>

fun settings_loop :: "builtins \<Rightarrow> json list \<Rightarrow> settings \<Rightarrow> settings option" where
  "settings_loop bi [] settings = Some settings"
| "settings_loop bi (item # items) settings =
     (case item of
        JDict kvs \<Rightarrow>
          do { let settings =
                 (case map_of kvs ''settings'' of
                    Some (JList setting_list) \<Rightarrow> merge_settings setting_list settings
                  | _ \<Rightarrow> settings);
               settings \<leftarrow> copy_int_keys bi settings_keys kvs settings;
               settings_loop bi items settings }
      | _ \<Rightarrow> settings_loop bi items settings)"

text \<open>The \<^verbatim>\<open>try\<close> block of \<^verbatim>\<open>_parse_league_settings\<close> (lines 418-446).\<close>

definition league_settings_try :: "builtins \<Rightarrow> json \<Rightarrow> settings option" where
  "league_settings_try bi data =
     do { content \<leftarrow> py_get data ''fantasy_content'' (JDict []);
          league_data \<leftarrow> py_get content ''league'' (JList []);
          items \<leftarrow> py_iter league_data;
          settings \<leftarrow> settings_loop bi items [];
          if truthy league_data then
            do { first \<leftarrow> py_index league_data 0;
                 (case first of
                    JDict meta \<Rightarrow> copy_int_keys bi settings_keys meta settings
                  | _ \<Rightarrow> Some settings) }
          else Some settings }"

text \<open>\<^verbatim>\<open>_parse_league_settings\<close> (lines 415-449): the handler returns the default.\<close>

definition parse_league_settings :: "builtins \<Rightarrow> json \<Rightarrow> settings" where
  "parse_league_settings bi data =
     (case league_settings_try bi data of
        Some settings \<Rightarrow> settings
      | None \<Rightarrow>
          [(''playoff_start_week'', JInt 14), (''end_week'', JInt 16), (''num_teams'', JInt 10)])"

text \<open>Lines 305-308 of \<^verbatim>\<open>extract_season_data\<close>:
  \<open>(num_teams, playoff_start, end_week)\<close>.\<close>

definition effective_settings :: "builtins \<Rightarrow> json \<Rightarrow> (int \<times> int \<times> int) option" where
  "effective_settings bi settings_data =
     do { let settings_raw = parse_league_settings bi settings_data;
          num_teams \<leftarrow> py_int bi (dget settings_raw ''num_teams'' (JInt 10));
          playoff_start \<leftarrow> py_int bi (dget settings_raw ''playoff_start_week'' (JInt 14));
          end_week \<leftarrow> py_int bi (dget settings_raw ''end_week'' (JInt 16));
          Some (num_teams, playoff_start, end_week) }"

section \<open>Rank-derived bracket\<close>

record placement =
  r :: int
  m :: int
  t1 :: int
  t2 :: int
  w :: int
  l :: int
  p :: int

text \<open>\<^verbatim>\<open>_build_bracket_from_rankings\<close> (lines 607-633); \<^verbatim>\<open>k in d\<close> is
  \<open>map_of d k \<noteq> None\<close>.\<close>

definition build_bracket_from_rankings :: "(int, 'v) pydict \<Rightarrow> placement list" where
  "build_bracket_from_rankings roster_to_owner =
     (let bracket = [];
          bracket = (if map_of roster_to_owner 1 \<noteq> None \<and> map_of roster_to_owner 2 \<noteq> None
                     then bracket @ [\<lparr>r = 2, m = 1, t1 = 1, t2 = 2, w = 1, l = 2, p = 1\<rparr>] else bracket);
          bracket = (if map_of roster_to_owner 3 \<noteq> None \<and> map_of roster_to_owner 4 \<noteq> None
                     then bracket @ [\<lparr>r = 2, m = 2, t1 = 3, t2 = 4, w = 3, l = 4, p = 3\<rparr>] else bracket)
      in bracket)"

section \<open>Matchup-derived bracket\<close>

text \<open>
  The \<^verbatim>\<open>points\<close> of a matchup entry are the integer \<^verbatim>\<open>0\<close> (no score found)
  or a float.  Python compares an integer with a float by their exact values.
\<close>

datatype pynum = NInt int | NFloat pyfloat

fun num_val :: "pynum \<Rightarrow> pyfloat" where
  "num_val (NInt n) = Finite (of_int n)"
| "num_val (NFloat f) = f"

text \<open>The order \<^verbatim>\<open><\<close> of floats: every comparison with NaN is false.\<close>

fun fl_less :: "pyfloat \<Rightarrow> pyfloat \<Rightarrow> bool" where
  "fl_less (Finite a) (Finite b) = (a < b)"
| "fl_less (Finite a) PosInf = True"
| "fl_less NegInf (Finite b) = True"
| "fl_less NegInf PosInf = True"
| "fl_less _ _ = False"

definition py_lt :: "pynum \<Rightarrow> pynum \<Rightarrow> bool" where
  "py_lt a b = fl_less (num_val a) (num_val b)"

definition py_gt :: "pynum \<Rightarrow> pynum \<Rightarrow> bool" where
  "py_gt a b = fl_less (num_val b) (num_val a)"

record matchup_entry =
  roster_id :: int
  matchup_id :: int
  points :: pynum

text \<open>
  \<^verbatim>\<open>max(pair, key=lambda x: x["points"])\<close> keeps the first element and replaces it
  only by a strictly greater one; \<^verbatim>\<open>min\<close> only by a strictly smaller one.  The
  first argument is the head of the (non-empty) list.
\<close>

fun max_points :: "matchup_entry \<Rightarrow> matchup_entry list \<Rightarrow> matchup_entry" where
  "max_points best [] = best"
| "max_points best (x # xs) =
     max_points (if py_gt (points x) (points best) then x else best) xs"

fun min_points :: "matchup_entry \<Rightarrow> matchup_entry list \<Rightarrow> matchup_entry" where
  "min_points best [] = best"
| "min_points best (x # xs) =
     min_points (if py_lt (points x) (points best) then x else best) xs"

text \<open>Lines 655-659: the last entry for \<^verbatim>\<open>end_week\<close> and for \<^verbatim>\<open>end_week - 1\<close>.\<close>

fun select_weeks ::
  "int \<Rightarrow> (int \<times> matchup_entry list) list
     \<Rightarrow> matchup_entry list option \<times> matchup_entry list option
     \<Rightarrow> matchup_entry list option \<times> matchup_entry list option" where
  "select_weeks end_week [] acc = acc"
| "select_weeks end_week ((week, matchups) # rest) (final, semifinal) =
     (if week = end_week then select_weeks end_week rest (Some matchups, semifinal)
      else if week = end_week - 1 then select_weeks end_week rest (final, Some matchups)
      else select_weeks end_week rest (final, semifinal))"

text \<open>Lines 668-673 and 683-688: group a week's entries by \<^verbatim>\<open>matchup_id\<close>.\<close>

definition add_entry ::
  "(int, matchup_entry list) pydict \<Rightarrow> matchup_entry \<Rightarrow> (int, matchup_entry list) pydict" where
  "add_entry d e =
     (let mid = matchup_id e;
          d = (if map_of d mid = None then AList.update mid [] d else d)
      in AList.map_entry mid (\<lambda>es. es @ [e]) d)"

definition group_by_matchup :: "matchup_entry list \<Rightarrow> (int, matchup_entry list) pydict" where
  "group_by_matchup week = foldl add_entry [] week"

text \<open>Lines 675-680: winners and losers of the semifinal pairs.\<close>

fun semi_results ::
  "(int, matchup_entry list) pydict \<Rightarrow> int set \<times> int set \<Rightarrow> int set \<times> int set" where
  "semi_results [] acc = acc"
| "semi_results ((mid, pair) # rest) (semi_winners, semi_losers) =
     (case pair of
        [a, b] \<Rightarrow>
          (let winner = max_points a [b];
               loser = min_points a [b]
           in semi_results rest
                (insert (roster_id winner) semi_winners, insert (roster_id loser) semi_losers))
      | _ \<Rightarrow> semi_results rest (semi_winners, semi_losers))"

text \<open>Lines 695-702: with semifinal winners known.\<close>

fun identify ::
  "int set \<Rightarrow> int set \<Rightarrow> (int, matchup_entry list) pydict
     \<Rightarrow> matchup_entry list option \<times> matchup_entry list option
     \<Rightarrow> matchup_entry list option \<times> matchup_entry list option" where
  "identify semi_winners semi_losers [] acc = acc"
| "identify semi_winners semi_losers ((mid, pair) # rest) (champ_matchup, third_matchup) =
     (if length pair \<noteq> 2 then
        identify semi_winners semi_losers rest (champ_matchup, third_matchup)
      else
        (let roster_ids = set (map roster_id pair) in
         if roster_ids \<subseteq> semi_winners then
           identify semi_winners semi_losers rest (Some pair, third_matchup)
         else if roster_ids \<subseteq> semi_losers then
           identify semi_winners semi_losers rest (champ_matchup, Some pair)
         else identify semi_winners semi_losers rest (champ_matchup, third_matchup)))"

text \<open>Lines 705-709: without them, the two smallest matchup ids.\<close>

definition by_matchup_id ::
  "(int, matchup_entry list) pydict
     \<Rightarrow> matchup_entry list option \<times> matchup_entry list option" where
  "by_matchup_id by_matchup =
     (case sort (map fst by_matchup) of
        [] \<Rightarrow> (None, None)
      | i0 # ids \<Rightarrow>
          (map_of by_matchup i0,
           (case ids of [] \<Rightarrow> None | i1 # _ \<Rightarrow> map_of by_matchup i1)))"

text \<open>Lines 711-729: one placement for a pairing of exactly two entries.\<close>

definition emit :: "matchup_entry list option \<Rightarrow> int \<Rightarrow> int \<Rightarrow> placement list" where
  "emit pairing number place =
     (case pairing of
        Some [a, b] \<Rightarrow>
          (let winner = max_points a [b];
               loser = min_points a [b]
           in [\<lparr>r = 2, m = number,
                t1 = roster_id winner, t2 = roster_id loser,
                w = roster_id winner, l = roster_id loser,
                p = place\<rparr>])
      | _ \<Rightarrow> [])"

text \<open>\<^verbatim>\<open>_determine_placements\<close> (lines 635-731).  The parameters
  \<^verbatim>\<open>playoff_start\<close> and \<^verbatim>\<open>team_key_to_roster_id\<close> are not read by the source.\<close>

definition semi_sets :: "matchup_entry list option \<Rightarrow> int set \<times> int set" where
  "semi_sets semifinal_week_matchups =
     (case semifinal_week_matchups of
        None \<Rightarrow> ({}, {})
      | Some [] \<Rightarrow> ({}, {})
      | Some week \<Rightarrow> semi_results (group_by_matchup week) ({}, {}))"

definition determine_placements ::
  "(int \<times> matchup_entry list) list \<Rightarrow> int \<Rightarrow> int \<Rightarrow> 'tk \<Rightarrow> placement list" where
  "determine_placements playoff_matchups playoff_start end_week team_key_to_roster_id =
     (if playoff_matchups = [] then []
      else
        (case select_weeks end_week playoff_matchups (None, None) of
           (None, _) \<Rightarrow> []
         | (Some [], _) \<Rightarrow> []
         | (Some final_week_matchups, semifinal_week_matchups) \<Rightarrow>
             (let (semi_winners, semi_losers) = semi_sets semifinal_week_matchups;
                  by_matchup = group_by_matchup final_week_matchups;
                  (champ_matchup, third_matchup) =
                    (if semi_winners \<noteq> {}
                     then identify semi_winners semi_losers by_matchup (None, None)
                     else by_matchup_id by_matchup)
              in emit champ_matchup 1 1 @ emit third_matchup 2 3)))"

section \<open>Standings\<close>

text \<open>A team record is the dict that \<^verbatim>\<open>_parse_team_entry\<close> fills.\<close>

type_synonym team = "(string, json) pydict"

definition meta_keys :: "string list" where
  "meta_keys =
     [''team_key'', ''team_id'', ''name'', ''url'', ''team_logos'', ''is_owned_by_current_login'']"

text \<open>Lines 492-504: the metadata fields of one dict of a list-typed sibling.\<close>

fun copy_meta :: "string list \<Rightarrow> (string, json) pydict \<Rightarrow> team \<Rightarrow> team option" where
  "copy_meta [] sub team = Some team"
| "copy_meta (key # keys) sub team =
     (case map_of sub key of
        None \<Rightarrow> copy_meta keys sub team
      | Some v \<Rightarrow>
          if key = ''name'' then copy_meta keys sub (AList.update ''team_name'' v team)
          else if key = ''team_logos'' then
            (case v of
               JList (JDict logo # _) \<Rightarrow>
                 (case map_of logo ''team_logo'' of
                    Some team_logo \<Rightarrow>
                      do { url \<leftarrow> py_get team_logo ''url'' JNull;
                           copy_meta keys sub (AList.update ''team_logo'' url team) }
                  | None \<Rightarrow> copy_meta keys sub team)
             | _ \<Rightarrow> copy_meta keys sub team)
          else copy_meta keys sub (AList.update key v team))"

text \<open>Lines 506-513: the first manager.\<close>

definition manager_info :: "(string, json) pydict \<Rightarrow> team \<Rightarrow> team option" where
  "manager_info sub team =
     (case map_of sub ''managers'' of
        Some (JList (JDict mgr # _)) \<Rightarrow>
          (case map_of mgr ''manager'' of
             Some mgr_data \<Rightarrow>
               do { nickname \<leftarrow> py_get mgr_data ''nickname'' (JStr ''Unknown'');
                    guid \<leftarrow> py_get mgr_data ''guid'' (JStr []);
                    Some (AList.update ''manager_guid'' guid
                            (AList.update ''manager_name'' nickname team)) }
           | None \<Rightarrow> Some team)
      | _ \<Rightarrow> Some team)"

text \<open>Lines 516-526: a dict-typed sibling with \<^verbatim>\<open>team_standings\<close>.\<close>

definition team_standings :: "builtins \<Rightarrow> (string, json) pydict \<Rightarrow> team \<Rightarrow> team option" where
  "team_standings bi item team =
     (case map_of item ''team_standings'' of
        None \<Rightarrow> Some team
      | Some standings \<Rightarrow>
          do { rank \<leftarrow> py_get standings ''rank'' JNull;
               let team = AList.update ''rank'' rank team;
               outcome \<leftarrow> py_get standings ''outcome_totals'' (JDict []);
               wins \<leftarrow> py_get outcome ''wins'' (JInt 0) \<bind> py_int bi;
               let team = AList.update ''wins'' (JInt wins) team;
               losses \<leftarrow> py_get outcome ''losses'' (JInt 0) \<bind> py_int bi;
               let team = AList.update ''losses'' (JInt losses) team;
               ties \<leftarrow> py_get outcome ''ties'' (JInt 0) \<bind> py_int bi;
               let team = AList.update ''ties'' (JInt ties) team;
               points_for \<leftarrow> py_get standings ''points_for'' (JInt 0) \<bind> py_float bi;
               let team = AList.update ''points_for'' (JFloat points_for) team;
               points_against \<leftarrow> py_get standings ''points_against'' (JInt 0) \<bind> py_float bi;
               Some (AList.update ''points_against'' (JFloat points_against) team) })"

text \<open>Lines 529-530: \<^verbatim>\<open>team_points\<close>.\<close>

definition team_points_total :: "builtins \<Rightarrow> (string, json) pydict \<Rightarrow> team \<Rightarrow> team option" where
  "team_points_total bi item team =
     (case map_of item ''team_points'' of
        None \<Rightarrow> Some team
      | Some team_points \<Rightarrow>
          do { total \<leftarrow> py_get team_points ''total'' (JInt 0) \<bind> py_float bi;
               Some (AList.update ''points_total'' (JFloat total) team) })"

text \<open>Lines 489-513: \<^verbatim>\<open>for sub in item\<close>.\<close>

fun sub_loop :: "json list \<Rightarrow> team \<Rightarrow> team option" where
  "sub_loop [] team = Some team"
| "sub_loop (sub # subs) team =
     (case sub of
        JDict kvs \<Rightarrow>
          do { team \<leftarrow> copy_meta meta_keys kvs team;
               team \<leftarrow> manager_info kvs team;
               sub_loop subs team }
      | _ \<Rightarrow> sub_loop subs team)"

text \<open>Lines 487-530: \<^verbatim>\<open>for item in team_entry\<close>.\<close>

fun item_loop :: "builtins \<Rightarrow> json list \<Rightarrow> team \<Rightarrow> team option" where
  "item_loop bi [] team = Some team"
| "item_loop bi (item # items) team =
     (case item of
        JList subs \<Rightarrow>
          do { team \<leftarrow> sub_loop subs team;
               item_loop bi items team }
      | JDict kvs \<Rightarrow>
          do { team \<leftarrow> team_standings bi kvs team;
               team \<leftarrow> team_points_total bi kvs team;
               item_loop bi items team }
      | _ \<Rightarrow> item_loop bi items team)"

text \<open>
  \<^verbatim>\<open>_parse_team_entry\<close> (lines 482-535): \<open>None\<close> is the Python \<^verbatim>\<open>None\<close>,
  returned when the team key is missing or falsy and by the exception handler.
\<close>

definition parse_team_entry :: "builtins \<Rightarrow> json \<Rightarrow> team option" where
  "parse_team_entry bi team_entry =
     do { items \<leftarrow> py_iter team_entry;
          team \<leftarrow> item_loop bi items [];
          if truthy (dget team ''team_key'' JNull) then Some team else None }"

text \<open>Line 472: \<^verbatim>\<open>teams_data.get(str(i), {}).get("team", [])\<close>.\<close>

definition team_entry_at :: "json \<Rightarrow> nat \<Rightarrow> json option" where
  "team_entry_at teams_data i =
     do { entry \<leftarrow> py_get teams_data (str_nat i) (JDict []);
          py_get entry ''team'' (JList []) }"

text \<open>Lines 471-475: \<^verbatim>\<open>for i in range(team_count)\<close>.  A parsed team is a
  non-empty dict, so \<^verbatim>\<open>if team_info\<close> holds exactly when it is not \<^verbatim>\<open>None\<close>.\<close>

fun teams_loop :: "builtins \<Rightarrow> json \<Rightarrow> nat list \<Rightarrow> team list \<Rightarrow> team list option" where
  "teams_loop bi teams_data [] teams = Some teams"
| "teams_loop bi teams_data (i # is) teams =
     do { team_entry \<leftarrow> team_entry_at teams_data i;
          (case parse_team_entry bi team_entry of
             Some team_info \<Rightarrow> teams_loop bi teams_data is (teams @ [team_info])
           | None \<Rightarrow> teams_loop bi teams_data is teams) }"

text \<open>Lines 467-475: \<^verbatim>\<open>for item in standings\<close>.\<close>

fun standings_loop :: "builtins \<Rightarrow> json list \<Rightarrow> team list \<Rightarrow> team list option" where
  "standings_loop bi [] teams = Some teams"
| "standings_loop bi (item # items) teams =
     (case item of
        JDict kvs \<Rightarrow>
          (case map_of kvs ''teams'' of
             Some teams_data \<Rightarrow>
               do { team_count \<leftarrow> py_get teams_data ''count'' (JInt 0);
                    indices \<leftarrow> py_range team_count;
                    teams \<leftarrow> teams_loop bi teams_data indices teams;
                    standings_loop bi items teams }
           | None \<Rightarrow> standings_loop bi items teams)
      | _ \<Rightarrow> standings_loop bi items teams)"

fun is_dict :: "json \<Rightarrow> bool" where
  "is_dict (JDict kvs) = True"
| "is_dict _ = False"

text \<open>
  \<^verbatim>\<open>_parse_standings\<close> (lines 451-480): the league info and the teams; \<open>None\<close>
  is the \<^verbatim>\<open>None\<close> of the exception handler.
\<close>

definition parse_standings :: "builtins \<Rightarrow> json \<Rightarrow> (json \<times> team list) option" where
  "parse_standings bi data =
     do { content \<leftarrow> py_get data ''fantasy_content'' (JDict []);
          league_data \<leftarrow> py_get content ''league'' (JList []);
          league_info \<leftarrow>
            (if truthy league_data then
               do { first \<leftarrow> py_index league_data 0;
                    Some (if is_dict first then first else JDict []) }
             else Some (JDict []));
          n \<leftarrow> py_len league_data;
          teams \<leftarrow>
            (if 1 < n then
               do { second \<leftarrow> py_index league_data 1;
                    if is_dict second then
                      do { standings \<leftarrow> py_get second ''standings'' (JList []);
                           (case standings of
                              JList items \<Rightarrow> standings_loop bi items []
                            | _ \<Rightarrow> Some []) }
                    else Some [] }
             else Some []);
          Some (league_info, teams) }"

section \<open>Weekly scoreboard\<close>

text \<open>Lines 581-588: the team key and the points of one team of a matchup.\<close>

fun last_team_key :: "json list \<Rightarrow> json \<Rightarrow> json" where
  "last_team_key [] team_key = team_key"
| "last_team_key (sub # subs) team_key =
     (case sub of
        JDict kvs \<Rightarrow>
          (case map_of kvs ''team_key'' of
             Some v \<Rightarrow> last_team_key subs v
           | None \<Rightarrow> last_team_key subs team_key)
      | _ \<Rightarrow> last_team_key subs team_key)"

fun team_fields :: "builtins \<Rightarrow> json list \<Rightarrow> json \<times> pynum \<Rightarrow> (json \<times> pynum) option" where
  "team_fields bi [] acc = Some acc"
| "team_fields bi (item # items) (team_key, team_points) =
     (case item of
        JList subs \<Rightarrow> team_fields bi items (last_team_key subs team_key, team_points)
      | JDict kvs \<Rightarrow>
          (case map_of kvs ''team_points'' of
             Some tp \<Rightarrow>
               do { total \<leftarrow> py_get tp ''total'' (JInt 0) \<bind> py_float bi;
                    team_fields bi items (team_key, NFloat total) }
           | None \<Rightarrow> team_fields bi items (team_key, team_points))
      | _ \<Rightarrow> team_fields bi items (team_key, team_points))"

text \<open>Lines 576-596: \<^verbatim>\<open>for t in range(team_count)\<close>.  The initial
  \<^verbatim>\<open>team_key = None\<close> is \<open>JNull\<close>.\<close>

fun match_teams_loop ::
  "builtins \<Rightarrow> (json, int) pydict \<Rightarrow> json \<Rightarrow> int \<Rightarrow> nat list \<Rightarrow> matchup_entry list
     \<Rightarrow> matchup_entry list option" where
  "match_teams_loop bi team_key_to_roster_id teams_in_matchup mid [] match_teams =
     Some match_teams"
| "match_teams_loop bi team_key_to_roster_id teams_in_matchup mid (t # ts) match_teams =
     do { entry \<leftarrow> py_get teams_in_matchup (str_nat t) (JDict []);
          team_entry \<leftarrow> py_get entry ''team'' (JList []);
          items \<leftarrow> py_iter team_entry;
          (team_key, team_points) \<leftarrow> team_fields bi items (JNull, NInt 0);
          if truthy team_key then
            do { k \<leftarrow> hash_key team_key;
                 match_teams_loop bi team_key_to_roster_id teams_in_matchup mid ts
                   (match_teams @
                    [\<lparr>roster_id = dget team_key_to_roster_id k (int t + 1),
                      matchup_id = mid, points = team_points\<rparr>]) }
          else match_teams_loop bi team_key_to_roster_id teams_in_matchup mid ts match_teams }"

text \<open>
  Lines 565-596, the body of the matchup loop up to the final test: the resolved teams
  of matchup \<^verbatim>\<open>i\<close>, none after a \<^verbatim>\<open>continue\<close>; \<open>None\<close> when an
  exception is raised.
\<close>

definition parse_matchup ::
  "builtins \<Rightarrow> (json, int) pydict \<Rightarrow> json \<Rightarrow> nat \<Rightarrow> int \<Rightarrow> matchup_entry list option" where
  "parse_matchup bi team_key_to_roster_id matchup_data i mid =
     do { entry \<leftarrow> py_get matchup_data (str_nat i) (JDict []);
          match_entry \<leftarrow> py_get entry ''matchup'' (JDict []);
          if \<not> truthy match_entry then Some []
          else
            do { first \<leftarrow> py_get match_entry ''0'' (JDict []);
                 direct \<leftarrow> py_get match_entry ''teams'' (JDict []);
                 teams_in_matchup \<leftarrow> py_get first ''teams'' direct;
                 if \<not> truthy teams_in_matchup then Some []
                 else
                   do { team_count \<leftarrow> py_get teams_in_matchup ''count'' (JInt 0);
                        ts \<leftarrow> py_range team_count;
                        match_teams_loop bi team_key_to_roster_id teams_in_matchup mid ts [] } } }"

text \<open>
  Lines 564-600: \<^verbatim>\<open>for i in range(count)\<close>.  An exception leaves the loop; the
  handler prints a warning and the function returns the matchups collected so far.
\<close>

fun matchups_loop ::
  "builtins \<Rightarrow> (json, int) pydict \<Rightarrow> json \<Rightarrow> nat list \<Rightarrow> matchup_entry list \<Rightarrow> int
     \<Rightarrow> matchup_entry list" where
  "matchups_loop bi team_key_to_roster_id matchup_data [] matchups mid = matchups"
| "matchups_loop bi team_key_to_roster_id matchup_data (i # is) matchups mid =
     (case parse_matchup bi team_key_to_roster_id matchup_data i mid of
        None \<Rightarrow> matchups
      | Some match_teams \<Rightarrow>
          if length match_teams = 2
          then matchups_loop bi team_key_to_roster_id matchup_data is
                 (matchups @ match_teams) (mid + 1)
          else matchups_loop bi team_key_to_roster_id matchup_data is matchups mid)"

text \<open>Lines 553-556: the first value of the scoreboard that is a dict with
  \<^verbatim>\<open>matchups\<close>.\<close>

fun first_matchups :: "(string, json) pydict \<Rightarrow> json \<Rightarrow> json" where
  "first_matchups [] matchup_data = matchup_data"
| "first_matchups (kv # rest) matchup_data =
     (case snd kv of
        JDict d \<Rightarrow>
          (case map_of d ''matchups'' of
             Some v \<Rightarrow> v
           | None \<Rightarrow> first_matchups rest matchup_data)
      | _ \<Rightarrow> first_matchups rest matchup_data)"

text \<open>The \<^verbatim>\<open>try\<close> block of \<^verbatim>\<open>_parse_scoreboard\<close> up to the loop (lines 541-561):
  the matchup collection and the indices to visit; \<open>Some None\<close> is an early
  \<^verbatim>\<open>return matchups\<close>.\<close>

definition locate_matchups :: "json \<Rightarrow> (json \<times> nat list) option option" where
  "locate_matchups data =
     do { content \<leftarrow> py_get data ''fantasy_content'' (JDict []);
          league_data \<leftarrow> py_get content ''league'' (JList []);
          n \<leftarrow> py_len league_data;
          if n < 2 then Some None
          else
            do { second \<leftarrow> py_index league_data 1;
                 scoreboard \<leftarrow> py_get second ''scoreboard'' (JDict []);
                 if \<not> truthy scoreboard then Some None
                 else
                   do { first \<leftarrow> py_get scoreboard ''0'' (JDict []);
                        direct \<leftarrow> py_get scoreboard ''matchups'' (JDict []);
                        matchup_data \<leftarrow> py_get first ''matchups'' direct;
                        let matchup_data =
                          (if \<not> truthy matchup_data
                           then (case scoreboard of
                                   JDict items \<Rightarrow> first_matchups items matchup_data
                                 | _ \<Rightarrow> matchup_data)
                           else matchup_data);
                        if \<not> truthy matchup_data then Some None
                        else
                          do { count \<leftarrow> py_get matchup_data ''count'' (JInt 0);
                               indices \<leftarrow> py_range count;
                               Some (Some (matchup_data, indices)) } } } }"

text \<open>\<^verbatim>\<open>_parse_scoreboard\<close> (lines 537-605).\<close>

definition parse_scoreboard :: "builtins \<Rightarrow> json \<Rightarrow> (json, int) pydict \<Rightarrow> matchup_entry list" where
  "parse_scoreboard bi data team_key_to_roster_id =
     (case locate_matchups data of
        Some (Some (matchup_data, indices)) \<Rightarrow>
          matchups_loop bi team_key_to_roster_id matchup_data indices [] 1
      | _ \<Rightarrow> [])"

section \<open>Season assembly\<close>

text \<open>
  The league handed to \<^verbatim>\<open>extract_season_data\<close> (built by
  \<^verbatim>\<open>discover_leagues\<close>): the keys \<^verbatim>\<open>name\<close>, \<^verbatim>\<open>league_key\<close> and
  \<^verbatim>\<open>season\<close> are the ones read.
\<close>

record league =
  name :: json
  league_key :: json
  season :: json

text \<open>The user dict; \<open>team_name\<close> is \<^verbatim>\<open>metadata.team_name\<close>.\<close>

record user =
  user_id :: json
  display_name :: json
  avatar :: json
  team_name :: json

text \<open>
  The roster dict.  Its key \<^verbatim>\<open>roster_id\<close> is the field \<open>roster_roster_id\<close>
  (the matchup entry has a \<open>roster_id\<close> already) and \<^verbatim>\<open>league_id\<close> is
  \<open>roster_league_id\<close>; the other fields are those of \<^verbatim>\<open>settings\<close>.
\<close>

record roster =
  roster_roster_id :: int
  owner_id :: json
  roster_league_id :: json
  wins :: json
  losses :: json
  ties :: json
  fpts :: int
  fpts_decimal :: int
  fpts_against :: int
  fpts_against_decimal :: int

text \<open>
  The season dict.  \<open>league_id\<close>, \<open>league_name\<close>, \<open>league_season\<close>,
  \<open>total_rosters\<close> and \<open>playoff_week_start\<close> are the entries of its
  \<^verbatim>\<open>league\<close> dict that vary (\<^verbatim>\<open>previous_league_id\<close>, \<^verbatim>\<open>avatar\<close> and
  \<^verbatim>\<open>leg\<close> are constants).
\<close>

record season_data =
  league_id :: json
  league_name :: json
  league_season :: json
  total_rosters :: nat
  playoff_week_start :: int
  users :: "user list"
  rosters :: "roster list"
  matchups :: "matchup_entry list list"
  winnersBracket :: "placement list"
  rosterToOwner :: "(string, json) pydict"

text \<open>Line 330: the sort key \<^verbatim>\<open>int(t.get("rank") or 99)\<close>.\<close>

definition rank_key :: "builtins \<Rightarrow> team \<Rightarrow> int option" where
  "rank_key bi t =
     (let rank = dget t ''rank'' JNull in py_int bi (if truthy rank then rank else JInt 99))"

text \<open>
  \<^verbatim>\<open>sorted(teams, key=...)\<close>: the keys are computed first (an exception in one of
  them aborts), then the teams are sorted by key, stably.
\<close>

definition sort_teams :: "builtins \<Rightarrow> team list \<Rightarrow> team list option" where
  "sort_teams bi teams =
     do { keys \<leftarrow> those (map (rank_key bi) teams);
          Some (map snd (sort_key fst (zip keys teams))) }"

text \<open>Line 334: \<^verbatim>\<open>team.get("manager_guid", f"yahoo_{team.get('team_key', idx)}")\<close>.\<close>

definition manager_id_of :: "builtins \<Rightarrow> nat \<Rightarrow> team \<Rightarrow> json" where
  "manager_id_of bi idx team =
     dget team ''manager_guid''
       (JStr (''yahoo_'' @ py_str bi (dget team ''team_key'' (JInt (int idx)))))"

text \<open>Lines 336-343.\<close>

definition mk_user :: "builtins \<Rightarrow> nat \<Rightarrow> team \<Rightarrow> user" where
  "mk_user bi idx team =
     \<lparr>user_id = manager_id_of bi idx team,
      display_name = dget team ''manager_name'' (JStr (''Manager '' @ str_int (int idx + 1))),
      avatar = dget team ''team_logo'' JNull,
      team_name = dget team ''team_name'' (JStr [])\<rparr>"

text \<open>Lines 345-358; the conversions of the points can raise.\<close>

definition mk_roster :: "builtins \<Rightarrow> json \<Rightarrow> nat \<Rightarrow> team \<Rightarrow> roster option" where
  "mk_roster bi lkey idx team =
     do { points_for \<leftarrow> py_float bi (dget team ''points_for'' (JInt 0));
          for_int \<leftarrow> float_to_int points_for;
          for_dec \<leftarrow> cents bi points_for;
          points_against \<leftarrow> py_float bi (dget team ''points_against'' (JInt 0));
          against_int \<leftarrow> float_to_int points_against;
          against_dec \<leftarrow> cents bi points_against;
          Some \<lparr>roster_roster_id = int idx + 1,
                owner_id = manager_id_of bi idx team,
                roster_league_id = lkey,
                wins = dget team ''wins'' (JInt 0),
                losses = dget team ''losses'' (JInt 0),
                ties = dget team ''ties'' (JInt 0),
                fpts = for_int,
                fpts_decimal = for_dec,
                fpts_against = against_int,
                fpts_against_decimal = against_dec\<rparr> }"

text \<open>Lines 332-360: \<^verbatim>\<open>for idx, team in enumerate(teams_sorted)\<close>.\<close>

fun build_rosters ::
  "builtins \<Rightarrow> json \<Rightarrow> nat \<Rightarrow> team list \<Rightarrow> user list \<times> roster list \<times> (int, json) pydict
     \<Rightarrow> (user list \<times> roster list \<times> (int, json) pydict) option" where
  "build_rosters bi lkey idx [] acc = Some acc"
| "build_rosters bi lkey idx (team # rest) (us, ros, roster_to_owner) =
     do { ro \<leftarrow> mk_roster bi lkey idx team;
          build_rosters bi lkey (Suc idx) rest
            (us @ [mk_user bi idx team], ros @ [ro],
             AList.update (int idx + 1) (manager_id_of bi idx team) roster_to_owner) }"

text \<open>Lines 363-365: the map from team key to roster id.\<close>

fun build_key_map :: "nat \<Rightarrow> team list \<Rightarrow> (json, int) pydict \<Rightarrow> (json, int) pydict option" where
  "build_key_map idx [] d = Some d"
| "build_key_map idx (team # rest) d =
     do { k \<leftarrow> hash_key (dget team ''team_key'' (JStr []));
          build_key_map (Suc idx) rest (AList.update k (int idx + 1) d) }"

text \<open>
  Lines 371-378, one week: the response of the scoreboard request (\<open>None\<close> when
  the request raises) gives the week's matchups.
\<close>

definition week_matchups ::
  "builtins \<Rightarrow> (json, int) pydict \<Rightarrow> json option \<Rightarrow> matchup_entry list" where
  "week_matchups bi team_key_to_roster_id response =
     (case response of
        None \<Rightarrow> []
      | Some scoreboard \<Rightarrow> parse_scoreboard bi scoreboard team_key_to_roster_id)"

text \<open>
  Lines 308-407 of \<^verbatim>\<open>extract_season_data\<close>, after the settings.  The responses of
  the standings request and of the scoreboard request of each week are arguments;
  \<open>None\<close> is a request that raises.  The result \<open>None\<close> is the Python
  \<^verbatim>\<open>None\<close>.
\<close>

definition assemble_season ::
  "builtins \<Rightarrow> league \<Rightarrow> int \<times> int \<times> int \<Rightarrow> json option \<Rightarrow> (int \<Rightarrow> json option)
     \<Rightarrow> season_data option" where
  "assemble_season bi lg st standings_response scoreboard_response =
     (case st of
        (num_teams, playoff_start, end_week) \<Rightarrow>
          do { let regular_season_weeks = playoff_start - 1;
               standings_data \<leftarrow> standings_response;
               (league_info, teams) \<leftarrow> parse_standings bi standings_data;
               teams_sorted \<leftarrow> sort_teams bi teams;
               (us, ros, roster_to_owner) \<leftarrow>
                 build_rosters bi (league_key lg) 0 teams_sorted ([], [], []);
               team_key_to_roster_id \<leftarrow> build_key_map 0 teams_sorted [];
               let all_matchups =
                 map (\<lambda>week. week_matchups bi team_key_to_roster_id (scoreboard_response week))
                   [1..regular_season_weeks];
               let winners_bracket = build_bracket_from_rankings roster_to_owner;
               Some \<lparr>league_id = league_key lg,
                     league_name = name lg,
                     league_season = season lg,
                     total_rosters = length teams,
                     playoff_week_start = playoff_start,
                     users = us,
                     rosters = ros,
                     matchups = all_matchups,
                     winnersBracket = winners_bracket,
                     rosterToOwner = map (\<lambda>kv. (str_int (fst kv), snd kv)) roster_to_owner\<rparr> })"

text \<open>\<^verbatim>\<open>extract_season_data\<close> (lines 295-413).\<close>

definition extract_season_data ::
  "builtins \<Rightarrow> league \<Rightarrow> json option \<Rightarrow> json option \<Rightarrow> (int \<Rightarrow> json option)
     \<Rightarrow> season_data option" where
  "extract_season_data bi lg settings_response standings_response scoreboard_response =
     do { settings_data \<leftarrow> settings_response;
          st \<leftarrow> effective_settings bi settings_data;
          assemble_season bi lg st standings_response scoreboard_response }"

section \<open>Notions used to state the properties\<close>


text \<open>The entries stored under a key of a grouping, none when the key is absent.\<close>

definition entries_at :: "(int, matchup_entry list) pydict \<Rightarrow> int \<Rightarrow> matchup_entry list" where
  "entries_at d k = (case map_of d k of None \<Rightarrow> [] | Some es \<Rightarrow> es)"

text \<open>
  The last pairing, in the order of a grouping, that satisfies a condition: what a
  loop that assigns a variable at every match leaves in it.
\<close>

definition last_pairing ::
  "(matchup_entry list \<Rightarrow> bool) \<Rightarrow> (int, matchup_entry list) pydict \<Rightarrow> matchup_entry list option" where
  "last_pairing ok d =
     (case rev (filter ok (map snd d)) of [] \<Rightarrow> None | pair # _ \<Rightarrow> Some pair)"

text \<open>The matchup ids of \<open>n\<close> emitted matchups, numbered from \<open>k\<close>:
  \<open>k, k, k + 1, k + 1, \<dots>\<close>\<close>

fun pairs_from :: "int \<Rightarrow> nat \<Rightarrow> int list" where
  "pairs_from k 0 = []"
| "pairs_from k (Suc n) = k # k # pairs_from (k + 1) n"



section \<open>Example inputs\<close>

text \<open>
  An instance of the runtime conversions for examples whose inputs hold numbers as JSON
  numbers: no string converts, and the cents are computed exactly.
\<close>

definition plain_builtins :: builtins where
  "plain_builtins =
     \<lparr>int_of_str = (\<lambda>s. None), float_of_str = (\<lambda>s. None), float_of_int = (\<lambda>n. None),
      str_of = (\<lambda>v. []), cents_of = (\<lambda>q. \<lfloor>(q - of_int \<lfloor>q\<rfloor>) * 100\<rfloor>)\<rparr>"

text \<open>The scoreboard response around a matchup collection.\<close>

definition scoreboard_of :: "json \<Rightarrow> json" where
  "scoreboard_of matchup_data =
     JDict
      [(''fantasy_content'', JDict
        [(''league'', JList
          [JDict
            [(''league_key'', JStr ''L'')],
           JDict
            [(''scoreboard'', JDict
              [(''0'', JDict
                [(''matchups'', matchup_data)])])]])])]"

text \<open>A matchup collection with one matchup of three teams.\<close>

definition three_team_matchups :: json where
  "three_team_matchups =
     JDict
      [(''0'', JDict
        [(''matchup'', JDict
          [(''0'', JDict
            [(''teams'', JDict
              [(''0'', JDict
                [(''team'', JList
                  [JList
                    [JDict
                      [(''team_key'', JStr ''A'')]],
                   JDict
                    [(''team_points'', JDict
                      [(''total'', JFloat (Finite 10))])]])]),
               (''1'', JDict
                [(''team'', JList
                  [JList
                    [JDict
                      [(''team_key'', JStr ''B'')]],
                   JDict
                    [(''team_points'', JDict
                      [(''total'', JFloat (Finite 20))])]])]),
               (''2'', JDict
                [(''team'', JList
                  [JList
                    [JDict
                      [(''team_key'', JStr ''C'')]],
                   JDict
                    [(''team_points'', JDict
                      [(''total'', JFloat (Finite 30))])]])]),
               (''count'', JInt 3)])])])]),
       (''count'', JInt 1)]"

text \<open>A matchup collection with one matchup of two teams.\<close>

definition two_team_matchups :: json where
  "two_team_matchups =
     JDict
      [(''0'', JDict
        [(''matchup'', JDict
          [(''0'', JDict
            [(''teams'', JDict
              [(''0'', JDict
                [(''team'', JList
                  [JList
                    [JDict
                      [(''team_key'', JStr ''A'')]],
                   JDict
                    [(''team_points'', JDict
                      [(''total'', JFloat (Finite 10))])]])]),
               (''1'', JDict
                [(''team'', JList
                  [JList
                    [JDict
                      [(''team_key'', JStr ''B'')]],
                   JDict
                    [(''team_points'', JDict
                      [(''total'', JFloat (Finite 20))])]])]),
               (''count'', JInt 2)])])])]),
       (''count'', JInt 1)]"

text \<open>A matchup collection whose second matchup is the number 5 instead of a dict.\<close>

definition broken_second_matchups :: json where
  "broken_second_matchups =
     JDict
      [(''0'', JDict
        [(''matchup'', JDict
          [(''0'', JDict
            [(''teams'', JDict
              [(''0'', JDict
                [(''team'', JList
                  [JList
                    [JDict
                      [(''team_key'', JStr ''A'')]],
                   JDict
                    [(''team_points'', JDict
                      [(''total'', JFloat (Finite 10))])]])]),
               (''1'', JDict
                [(''team'', JList
                  [JList
                    [JDict
                      [(''team_key'', JStr ''B'')]],
                   JDict
                    [(''team_points'', JDict
                      [(''total'', JFloat (Finite 20))])]])]),
               (''count'', JInt 2)])])])]),
       (''1'', JDict
        [(''matchup'', JInt 5)]),
       (''count'', JInt 2)]"

text \<open>
  A standings response with six team entries: A (rank 2) and B (rank 1) share the
  manager guid G, one entry has no team key, the managers of C and D have no guid, and
  E has no manager; C, D and E have no rank.
\<close>

definition six_entry_standings :: json where
  "six_entry_standings =
     JDict
      [(''fantasy_content'', JDict
        [(''league'', JList
          [JDict
            [(''league_key'', JStr ''L''),
             (''name'', JStr ''Football 101'')],
           JDict
            [(''standings'', JList
              [JDict
                [(''teams'', JDict
                  [(''0'', JDict
                    [(''team'', JList
                      [JList
                        [JDict
                          [(''team_key'', JStr ''A'')],
                         JDict
                          [(''name'', JStr ''Team A'')],
                         JDict
                          [(''managers'', JList
                            [JDict
                              [(''manager'', JDict
                                [(''nickname'', JStr ''Ann''),
                                 (''guid'', JStr ''G'')])]])]],
                       JDict
                        [(''team_standings'', JDict
                          [(''rank'', JInt 2),
                           (''outcome_totals'', JDict
                            [(''wins'', JInt 7),
                             (''losses'', JInt 6),
                             (''ties'', JInt 0)]),
                           (''points_for'', JFloat (Finite (2469 / 2))),
                           (''points_against'', JFloat (Finite 1200))])]])]),
                   (''1'', JDict
                    [(''team'', JList
                      [JList
                        [JDict
                          [(''team_key'', JStr ''B'')],
                         JDict
                          [(''name'', JStr ''Team B'')],
                         JDict
                          [(''managers'', JList
                            [JDict
                              [(''manager'', JDict
                                [(''nickname'', JStr ''Bob''),
                                 (''guid'', JStr ''G'')])]])]],
                       JDict
                        [(''team_standings'', JDict
                          [(''rank'', JInt 1),
                           (''outcome_totals'', JDict
                            [(''wins'', JInt 7),
                             (''losses'', JInt 6),
                             (''ties'', JInt 0)]),
                           (''points_for'', JFloat (Finite (2469 / 2))),
                           (''points_against'', JFloat (Finite 1200))])]])]),
                   (''2'', JDict
                    [(''team'', JList
                      [JList
                        [JDict
                          [(''name'', JStr ''Team X'')],
                         JDict
                          [(''managers'', JList
                            [JDict
                              [(''manager'', JDict
                                [(''nickname'', JStr ''Nobody''),
                                 (''guid'', JStr ''N'')])]])]],
                       JDict
                        [(''team_standings'', JDict
                          [(''rank'', JInt 3),
                           (''outcome_totals'', JDict
                            [(''wins'', JInt 7),
                             (''losses'', JInt 6),
                             (''ties'', JInt 0)]),
                           (''points_for'', JFloat (Finite (2469 / 2))),
                           (''points_against'', JFloat (Finite 1200))])]])]),
                   (''3'', JDict
                    [(''team'', JList
                      [JList
                        [JDict
                          [(''team_key'', JStr ''C'')],
                         JDict
                          [(''name'', JStr ''Team C'')],
                         JDict
                          [(''managers'', JList
                            [JDict
                              [(''manager'', JDict
                                [(''nickname'', JStr ''Cy'')])]])]],
                       JDict
                        [(''team_standings'', JDict
                          [(''outcome_totals'', JDict
                            [(''wins'', JInt 7),
                             (''losses'', JInt 6),
                             (''ties'', JInt 0)]),
                           (''points_for'', JFloat (Finite (2469 / 2))),
                           (''points_against'', JFloat (Finite 1200))])]])]),
                   (''4'', JDict
                    [(''team'', JList
                      [JList
                        [JDict
                          [(''team_key'', JStr ''D'')],
                         JDict
                          [(''name'', JStr ''Team D'')],
                         JDict
                          [(''managers'', JList
                            [JDict
                              [(''manager'', JDict
                                [(''nickname'', JStr ''Di'')])]])]],
                       JDict
                        [(''team_standings'', JDict
                          [(''outcome_totals'', JDict
                            [(''wins'', JInt 7),
                             (''losses'', JInt 6),
                             (''ties'', JInt 0)]),
                           (''points_for'', JFloat (Finite (2469 / 2))),
                           (''points_against'', JFloat (Finite 1200))])]])]),
                   (''5'', JDict
                    [(''team'', JList
                      [JList
                        [JDict
                          [(''team_key'', JStr ''E'')],
                         JDict
                          [(''name'', JStr ''Team E'')]],
                       JDict
                        [(''team_standings'', JDict
                          [(''outcome_totals'', JDict
                            [(''wins'', JInt 7),
                             (''losses'', JInt 6),
                             (''ties'', JInt 0)]),
                           (''points_for'', JFloat (Finite (2469 / 2))),
                           (''points_against'', JFloat (Finite 1200))])]])]),
                   (''count'', JInt 6)])]])]])])]"

text \<open>A standings response with the teams A (rank 1) and B (rank 2).\<close>

definition two_team_standings :: json where
  "two_team_standings =
     JDict
      [(''fantasy_content'', JDict
        [(''league'', JList
          [JDict
            [(''league_key'', JStr ''L''),
             (''name'', JStr ''Football 101'')],
           JDict
            [(''standings'', JList
              [JDict
                [(''teams'', JDict
                  [(''0'', JDict
                    [(''team'', JList
                      [JList
                        [JDict
                          [(''team_key'', JStr ''A'')]],
                       JDict
                        [(''team_standings'', JDict
                          [(''rank'', JInt 1)])]])]),
                   (''1'', JDict
                    [(''team'', JList
                      [JList
                        [JDict
                          [(''team_key'', JStr ''B'')]],
                       JDict
                        [(''team_standings'', JDict
                          [(''rank'', JInt 2)])]])]),
                   (''count'', JInt 2)])]])]])])]"

text \<open>A league as \<^verbatim>\<open>discover_leagues\<close> builds it, a season without scoreboards,
  and one whose first week alone has a scoreboard.\<close>

definition example_league :: league where
  "example_league =
     \<lparr>name = JStr ''Football 101'', league_key = JStr ''L'', season = JStr ''2010''\<rparr>"

definition no_scoreboard :: "int \<Rightarrow> json option" where
  "no_scoreboard week = None"

definition first_week_only :: "int \<Rightarrow> json option" where
  "first_week_only week = (if week = 1 then Some (scoreboard_of two_team_matchups) else None)"

text \<open>The season expected for \<open>two_team_standings\<close> with \<open>first_week_only\<close>.\<close>

definition two_team_season :: season_data where
  "two_team_season =
    \<lparr>league_id = JStr ''L'', league_name = JStr ''Football 101'',
       league_season = JStr ''2010'', total_rosters = 2,
       playoff_week_start = 14,
       users =
         [\<lparr>user_id = JStr ''yahoo_A'', display_name = JStr ''Manager 1'',
             avatar = JNull, team_name = JStr []\<rparr>,
          \<lparr>user_id = JStr ''yahoo_B'', display_name = JStr ''Manager 2'',
             avatar = JNull, team_name = JStr []\<rparr>],
       rosters =
         [\<lparr>roster_roster_id = 1, owner_id = JStr ''yahoo_A'',
             roster_league_id = JStr ''L'', wins = JInt 0, losses = JInt 0,
             ties = JInt 0, fpts = 0, fpts_decimal = 0, fpts_against = 0,
             fpts_against_decimal = 0\<rparr>,
          \<lparr>roster_roster_id = 2, owner_id = JStr ''yahoo_B'',
             roster_league_id = JStr ''L'', wins = JInt 0, losses = JInt 0,
             ties = JInt 0, fpts = 0, fpts_decimal = 0, fpts_against = 0,
             fpts_against_decimal = 0\<rparr>],
       matchups =
         [[\<lparr>roster_id = 1, matchup_id = 1, points = NFloat (Finite 10)\<rparr>,
           \<lparr>roster_id = 2, matchup_id = 1, points = NFloat (Finite 20)\<rparr>],
          [], [], [], [], [], [], [], [], [], [], [], []],
       winnersBracket = [\<lparr>r = 2, m = 1, t1 = 1, t2 = 2, w = 1, l = 2, p = 1\<rparr>],
       rosterToOwner =
         [(''1'', JStr ''yahoo_A''), (''2'', JStr ''yahoo_B'')]\<rparr>"

text \<open>The season expected for \<open>six_entry_standings\<close> with \<open>no_scoreboard\<close>.\<close>

definition six_entry_season :: season_data where
  "six_entry_season =
    \<lparr>league_id = JStr ''L'', league_name = JStr ''Football 101'',
       league_season = JStr ''2010'', total_rosters = 5,
       playoff_week_start = 14,
       users =
         [\<lparr>user_id = JStr ''G'', display_name = JStr ''Bob'', avatar = JNull,
             team_name = JStr ''Team B''\<rparr>,
          \<lparr>user_id = JStr ''G'', display_name = JStr ''Ann'', avatar = JNull,
             team_name = JStr ''Team A''\<rparr>,
          \<lparr>user_id = JStr [], display_name = JStr ''Cy'', avatar = JNull,
             team_name = JStr ''Team C''\<rparr>,
          \<lparr>user_id = JStr [], display_name = JStr ''Di'', avatar = JNull,
             team_name = JStr ''Team D''\<rparr>,
          \<lparr>user_id = JStr ''yahoo_E'', display_name = JStr ''Manager 5'',
             avatar = JNull, team_name = JStr ''Team E''\<rparr>],
       rosters =
         [\<lparr>roster_roster_id = 1, owner_id = JStr ''G'',
             roster_league_id = JStr ''L'', wins = JInt 7, losses = JInt 6,
             ties = JInt 0, fpts = 1234, fpts_decimal = 50,
             fpts_against = 1200, fpts_against_decimal = 0\<rparr>,
          \<lparr>roster_roster_id = 2, owner_id = JStr ''G'',
             roster_league_id = JStr ''L'', wins = JInt 7, losses = JInt 6,
             ties = JInt 0, fpts = 1234, fpts_decimal = 50,
             fpts_against = 1200, fpts_against_decimal = 0\<rparr>,
          \<lparr>roster_roster_id = 3, owner_id = JStr [],
             roster_league_id = JStr ''L'', wins = JInt 7, losses = JInt 6,
             ties = JInt 0, fpts = 1234, fpts_decimal = 50,
             fpts_against = 1200, fpts_against_decimal = 0\<rparr>,
          \<lparr>roster_roster_id = 4, owner_id = JStr [],
             roster_league_id = JStr ''L'', wins = JInt 7, losses = JInt 6,
             ties = JInt 0, fpts = 1234, fpts_decimal = 50,
             fpts_against = 1200, fpts_against_decimal = 0\<rparr>,
          \<lparr>roster_roster_id = 5, owner_id = JStr ''yahoo_E'',
             roster_league_id = JStr ''L'', wins = JInt 7, losses = JInt 6,
             ties = JInt 0, fpts = 1234, fpts_decimal = 50,
             fpts_against = 1200, fpts_against_decimal = 0\<rparr>],
       matchups = [[], [], [], [], [], [], [], [], [], [], [], [], []],
       winnersBracket =
         [\<lparr>r = 2, m = 1, t1 = 1, t2 = 2, w = 1, l = 2, p = 1\<rparr>,
          \<lparr>r = 2, m = 2, t1 = 3, t2 = 4, w = 3, l = 4, p = 3\<rparr>],
       rosterToOwner =
         [(''1'', JStr ''G''), (''2'', JStr ''G''), (''3'', JStr []),
          (''4'', JStr []), (''5'', JStr ''yahoo_E'')]\<rparr>"

section \<open>Properties of the rank-derived bracket\<close>

lemma map_of_present: "(map_of d k \<noteq> None) = (k \<in> fst ` set d)"
  by (simp add: map_of_eq_None_iff)

text \<open>
  Claim C2.  \<^verbatim>\<open>_build_bracket_from_rankings\<close> depends on the key set of
  \<^verbatim>\<open>roster_to_owner\<close> only: two dicts with the same keys give the same bracket.
  The championship placement \<^verbatim>\<open>{r:2, m:1, t1:1, t2:2, w:1, l:2, p:1}\<close> is emitted
  exactly when the keys 1 and 2 are both present, the third-place placement
  \<^verbatim>\<open>{r:2, m:2, t1:3, t2:4, w:3, l:4, p:3}\<close> exactly when 3 and 4 are, in this
  order.  With 1, 2, 3 and 4 present the bracket has exactly two placements, with
  \<^verbatim>\<open>p\<close> values 1 and 3; with exactly the keys 1 and 2 it is the championship
  placement alone.
\<close>

theorem bracket_from_rankings_key_set:
  fixes roster_to_owner :: "(int, 'v) pydict" and other :: "(int, 'u) pydict"
  shows
    "build_bracket_from_rankings roster_to_owner =
       (if 1 \<in> fst ` set roster_to_owner \<and> 2 \<in> fst ` set roster_to_owner
        then [\<lparr>r = 2, m = 1, t1 = 1, t2 = 2, w = 1, l = 2, p = 1\<rparr>] else []) @
       (if 3 \<in> fst ` set roster_to_owner \<and> 4 \<in> fst ` set roster_to_owner
        then [\<lparr>r = 2, m = 2, t1 = 3, t2 = 4, w = 3, l = 4, p = 3\<rparr>] else []) \<and>
     (fst ` set other = fst ` set roster_to_owner \<longrightarrow>
        build_bracket_from_rankings other = build_bracket_from_rankings roster_to_owner) \<and>
     ({1, 2, 3, 4} \<subseteq> fst ` set roster_to_owner \<longrightarrow>
        build_bracket_from_rankings roster_to_owner =
          [\<lparr>r = 2, m = 1, t1 = 1, t2 = 2, w = 1, l = 2, p = 1\<rparr>,
           \<lparr>r = 2, m = 2, t1 = 3, t2 = 4, w = 3, l = 4, p = 3\<rparr>] \<and>
        map p (build_bracket_from_rankings roster_to_owner) = [1, 3]) \<and>
     (fst ` set roster_to_owner = {1, 2} \<longrightarrow>
        build_bracket_from_rankings roster_to_owner =
          [\<lparr>r = 2, m = 1, t1 = 1, t2 = 2, w = 1, l = 2, p = 1\<rparr>])"
  unfolding build_bracket_from_rankings_def Let_def map_of_present
  by auto

theorem bracket_from_rankings_key_set_witness:
  "fst ` set [(1::int, True), (2, False)] = fst ` set [(1::int, ''b''), (2, ''a'')] \<and>
   build_bracket_from_rankings [(1::int, True), (2, False)] =
     build_bracket_from_rankings [(1::int, ''b''), (2, ''a'')] \<and>
   {1, 2, 3, 4} \<subseteq> fst ` set [(1::int, ''a''), (2, ''b''), (3, ''c''), (4, ''d'')] \<and>
   map p (build_bracket_from_rankings [(1::int, ''a''), (2, ''b''), (3, ''c''), (4, ''d'')]) =
     [1, 3] \<and>
   fst ` set [(1::int, ''b''), (2, ''a'')] = {1, 2} \<and>
   build_bracket_from_rankings [(1::int, ''b''), (2, ''a'')] =
     [\<lparr>r = 2, m = 1, t1 = 1, t2 = 2, w = 1, l = 2, p = 1\<rparr>]"
  using
    bracket_from_rankings_key_set
      [of "[(1::int, ''b''), (2, ''a'')]" "[(1::int, True), (2, False)]"]
    bracket_from_rankings_key_set
      [of "[(1::int, ''a''), (2, ''b''), (3, ''c''), (4, ''d'')]" "[]"]
  by simp

section \<open>Properties of the matchup-derived bracket\<close>


lemma map_entry_keys: "map fst (AList.map_entry k f xs) = map fst xs"
  by (induct xs) auto

lemma add_entry_keys:
  "map fst (add_entry d e) =
     (if matchup_id e \<in> set (map fst d) then map fst d else map fst d @ [matchup_id e])"
  by (auto simp: add_entry_def Let_def map_entry_keys update_keys map_of_eq_None_iff)

lemma add_entry_distinct: "distinct (map fst d) \<Longrightarrow> distinct (map fst (add_entry d e))"
  by (simp add: add_entry_keys)

lemma add_entry_map_of:
  "map_of (add_entry d e) k =
     (if k = matchup_id e then Some (entries_at d k @ [e]) else map_of d k)"
  by (auto simp: add_entry_def Let_def map_of_map_entry update_conv' entries_at_def
      split: option.splits)

lemma add_entry_dom: "fst ` set (add_entry d e) = insert (matchup_id e) (fst ` set d)"
proof -
  have "set (map fst (add_entry d e)) = insert (matchup_id e) (set (map fst d))"
    unfolding add_entry_keys by auto
  then show ?thesis by simp
qed

lemma foldl_add_entry_keys:
  "fst ` set (foldl add_entry d week) = fst ` set d \<union> matchup_id ` set week"
  by (induction week arbitrary: d) (simp_all add: add_entry_dom)

lemma foldl_add_entry_distinct:
  "distinct (map fst d) \<Longrightarrow> distinct (map fst (foldl add_entry d week))"
  by (induction week arbitrary: d) (auto simp: add_entry_distinct)

lemma foldl_add_entry_map_of:
  "map_of (foldl add_entry d week) k =
     (if k \<in> fst ` set d \<or> k \<in> matchup_id ` set week
      then Some (entries_at d k @ filter (\<lambda>e. matchup_id e = k) week) else None)"
proof (induction week arbitrary: d)
  case Nil
  show ?case
    by (auto simp: entries_at_def map_of_eq_None_iff split: option.splits)
next
  case (Cons e week)
  show ?case
    by (auto simp: Cons.IH add_entry_dom add_entry_map_of entries_at_def)
qed

lemma group_by_matchup_map_of:
  "map_of (group_by_matchup week) k =
     (if k \<in> matchup_id ` set week then Some (filter (\<lambda>e. matchup_id e = k) week) else None)"
  by (simp add: group_by_matchup_def foldl_add_entry_map_of entries_at_def)

lemma group_by_matchup_distinct: "distinct (map fst (group_by_matchup week))"
  by (simp add: group_by_matchup_def foldl_add_entry_distinct)

lemma group_by_matchup_keys: "fst ` set (group_by_matchup week) = matchup_id ` set week"
  by (simp add: group_by_matchup_def foldl_add_entry_keys)

lemma group_by_matchup_sorted_ids:
  "sort (map fst (group_by_matchup week)) = sorted_list_of_set (matchup_id ` set week)"
proof -
  have "sorted_list_of_set (set (map fst (group_by_matchup week))) =
          sort (remdups (map fst (group_by_matchup week)))"
    by (rule sorted_list_of_set_sort_remdups)
  then show ?thesis
    using group_by_matchup_distinct [of week] group_by_matchup_keys [of week]
    by (simp add: distinct_remdups_id)
qed

lemma group_by_matchup_member:
  "(k, pair) \<in> set (group_by_matchup week) \<longleftrightarrow>
     k \<in> matchup_id ` set week \<and> pair = filter (\<lambda>e. matchup_id e = k) week"
  using group_by_matchup_map_of [of week k] group_by_matchup_distinct [of week]
  by (metis map_of_eq_Some_iff option.inject option.simps(3))


lemma fl_less_asym: "fl_less x y \<Longrightarrow> \<not> fl_less y x"
  by (cases x; cases y) auto

lemma py_gt_asym: "py_gt x y \<Longrightarrow> \<not> py_gt y x"
  by (simp add: py_gt_def fl_less_asym)

lemma py_lt_gt: "py_lt x y = py_gt y x"
  by (simp add: py_gt_def py_lt_def)



lemma max_points_pair: "max_points a [b] = (if py_gt (points b) (points a) then b else a)"
  by simp

lemma min_points_pair: "min_points a [b] = (if py_gt (points a) (points b) then b else a)"
  by (simp add: py_lt_gt)

lemma emit_pair:
  "emit (Some [a, b]) number place =
     [\<lparr>r = 2, m = number,
       t1 = roster_id (max_points a [b]), t2 = roster_id (min_points a [b]),
       w = roster_id (max_points a [b]), l = roster_id (min_points a [b]), p = place\<rparr>]"
  by (simp add: emit_def Let_def)

lemma emit_not_pair: "length pair \<noteq> 2 \<Longrightarrow> emit (Some pair) number place = []"
  by (auto simp: emit_def split: list.splits)

lemma emit_None: "emit None number place = []"
  by (simp add: emit_def)

lemma semi_results_char:
  "semi_results d (sw, sl) =
     (sw \<union> {roster_id (max_points a [b]) | a b. [a, b] \<in> snd ` set d},
      sl \<union> {roster_id (min_points a [b]) | a b. [a, b] \<in> snd ` set d})"
proof (induction d arbitrary: sw sl)
  case Nil
  show ?case by simp
next
  case (Cons kv d)
  obtain mid pair where kv: "kv = (mid, pair)" by (cases kv)
  show ?case
  proof (cases "\<exists>a b. pair = [a, b]")
    case True
    then obtain a b where pr: "pair = [a, b]" by blast
    show ?thesis
      unfolding kv pr by (simp add: Cons.IH Let_def del: max_points.simps min_points.simps) blast
  next
    case False
    then have "semi_results ((mid, pair) # d) (sw, sl) = semi_results d (sw, sl)"
      by (auto split: list.splits)
    with False show ?thesis
      unfolding kv by (simp add: Cons.IH) blast
  qed
qed

lemma last_pairing_Cons:
  "last_pairing ok (kv # d) =
     (case last_pairing ok d of Some pr \<Rightarrow> Some pr
      | None \<Rightarrow> if ok (snd kv) then Some (snd kv) else None)"
  by (auto simp: last_pairing_def split: list.splits)

lemma identify_char:
  "identify sw sl d (c, t) =
     ((case last_pairing (\<lambda>pair. length pair = 2 \<and> roster_id ` set pair \<subseteq> sw) d of
         None \<Rightarrow> c | Some pr \<Rightarrow> Some pr),
      (case last_pairing (\<lambda>pair. length pair = 2 \<and> \<not> roster_id ` set pair \<subseteq> sw
                                 \<and> roster_id ` set pair \<subseteq> sl) d of
         None \<Rightarrow> t | Some pr \<Rightarrow> Some pr))"
proof (induction d arbitrary: c t)
  case Nil
  show ?case by (simp add: last_pairing_def)
next
  case (Cons kv d)
  obtain mid pair where kv: "kv = (mid, pair)" by (cases kv)
  show ?case
    unfolding kv
    by (auto simp: Cons.IH last_pairing_Cons Let_def split: option.splits)
qed



lemma determine_placements_unfold:
  assumes "select_weeks end_week playoff_matchups (None, None) = (Some final, semifinal)"
    and "final \<noteq> []"
  shows "determine_placements playoff_matchups playoff_start end_week tk =
     (let pairings =
        (if fst (semi_sets semifinal) \<noteq> {}
         then identify (fst (semi_sets semifinal)) (snd (semi_sets semifinal))
                (group_by_matchup final) (None, None)
         else by_matchup_id (group_by_matchup final))
      in emit (fst pairings) 1 1 @ emit (snd pairings) 2 3)"
proof -
  have ne: "playoff_matchups \<noteq> []"
    using assms(1) by auto
  obtain e es where fin: "final = e # es"
    using assms(2) by (cases final) auto
  show ?thesis
    using ne assms(1)
    by (simp add: determine_placements_def fin Let_def split_beta)
qed

lemma by_matchup_id_char:
  assumes "week \<noteq> []"
  shows "by_matchup_id (group_by_matchup week) =
     (let ids = sorted_list_of_set (matchup_id ` set week) in
      (Some (filter (\<lambda>e. matchup_id e = ids ! 0) week),
       if 1 < length ids then Some (filter (\<lambda>e. matchup_id e = ids ! 1) week) else None))"
proof -
  let ?ids = "sorted_list_of_set (matchup_id ` set week)"
  have set_ids: "set ?ids = matchup_id ` set week"
    by simp
  have "?ids \<noteq> []"
    using assms set_ids by (metis empty_set image_is_empty set_empty)
  then obtain i0 rest where ids: "?ids = i0 # rest"
    by (cases ?ids) auto
  have i0: "i0 \<in> matchup_id ` set week"
    using set_ids ids by (metis list.set_intros(1))
  have i1: "rest \<noteq> [] \<Longrightarrow> hd rest \<in> matchup_id ` set week"
    using set_ids ids by (metis hd_in_set list.set_intros(2))
  show ?thesis
    unfolding by_matchup_id_def group_by_matchup_sorted_ids Let_def ids
    using i0 i1
    by (cases rest) (simp_all add: group_by_matchup_map_of)
qed

text \<open>
  Claim C8.  When the final week is present and non-empty and no semifinal winner was
  identified, \<^verbatim>\<open>_determine_placements\<close> orders the matchup ids of the final week
  ascending; the entries of the smallest id are the championship pairing (match 1,
  placement 1) and those of the second smallest id, if there is one, the third-place
  pairing (match 2, placement 3).  A pairing that does not have exactly two entries
  emits nothing.  In a pairing of two entries the higher-scoring entry is the winner and
  the other the loser, and winner and loser are always among the two participants.
\<close>

theorem placements_without_semifinal_winners:
  assumes "select_weeks end_week playoff_matchups (None, None) = (Some final, semifinal)"
    and "final \<noteq> []"
    and "fst (semi_sets semifinal) = {}"
  shows
    "determine_placements playoff_matchups playoff_start end_week tk =
       (let ids = sorted_list_of_set (matchup_id ` set final) in
        emit (Some (filter (\<lambda>e. matchup_id e = ids ! 0) final)) 1 1 @
        (if 1 < length ids
         then emit (Some (filter (\<lambda>e. matchup_id e = ids ! 1) final)) 2 3 else [])) \<and>
     (length pair \<noteq> 2 \<longrightarrow> emit (Some pair) number place = []) \<and>
     (py_gt (points a) (points b) \<longrightarrow>
        emit (Some [a, b]) number place =
          [\<lparr>r = 2, m = number, t1 = roster_id a, t2 = roster_id b,
            w = roster_id a, l = roster_id b, p = place\<rparr>]) \<and>
     (py_gt (points b) (points a) \<longrightarrow>
        emit (Some [a, b]) number place =
          [\<lparr>r = 2, m = number, t1 = roster_id b, t2 = roster_id a,
            w = roster_id b, l = roster_id a, p = place\<rparr>]) \<and>
     (\<forall>x \<in> set (emit (Some [a, b]) number place).
        w x \<in> {roster_id a, roster_id b} \<and> l x \<in> {roster_id a, roster_id b} \<and>
        t1 x = w x \<and> t2 x = l x \<and> p x = place)"
proof -
  have "determine_placements playoff_matchups playoff_start end_week tk =
       (let ids = sorted_list_of_set (matchup_id ` set final) in
        emit (Some (filter (\<lambda>e. matchup_id e = ids ! 0) final)) 1 1 @
        (if 1 < length ids
         then emit (Some (filter (\<lambda>e. matchup_id e = ids ! 1) final)) 2 3 else []))"
    unfolding determine_placements_unfold [OF assms(1,2)]
    by (simp add: assms(3) by_matchup_id_char [OF assms(2)] Let_def emit_None)
  moreover have "length pair \<noteq> 2 \<longrightarrow> emit (Some pair) number place = []"
    by (simp add: emit_not_pair)
  moreover have "py_gt (points a) (points b) \<longrightarrow>
        emit (Some [a, b]) number place =
          [\<lparr>r = 2, m = number, t1 = roster_id a, t2 = roster_id b,
            w = roster_id a, l = roster_id b, p = place\<rparr>]"
    unfolding emit_pair max_points_pair min_points_pair
    by (auto dest: py_gt_asym)
  moreover have "py_gt (points b) (points a) \<longrightarrow>
        emit (Some [a, b]) number place =
          [\<lparr>r = 2, m = number, t1 = roster_id b, t2 = roster_id a,
            w = roster_id b, l = roster_id a, p = place\<rparr>]"
    unfolding emit_pair max_points_pair min_points_pair
    by (auto dest: py_gt_asym)
  moreover have "\<forall>x \<in> set (emit (Some [a, b]) number place).
        w x \<in> {roster_id a, roster_id b} \<and> l x \<in> {roster_id a, roster_id b} \<and>
        t1 x = w x \<and> t2 x = l x \<and> p x = place"
    unfolding emit_pair max_points_pair min_points_pair by simp
  ultimately show ?thesis by blast
qed


lemma semi_sets_Some:
  "semi_sets (Some week) =
     ({roster_id (max_points a [b]) | a b. [a, b] \<in> snd ` set (group_by_matchup week)},
      {roster_id (min_points a [b]) | a b. [a, b] \<in> snd ` set (group_by_matchup week)})"
proof (cases week)
  case Nil
  then show ?thesis by (simp add: semi_sets_def group_by_matchup_def)
next
  case (Cons e es)
  then have "semi_sets (Some week) = semi_results (group_by_matchup week) ({}, {})"
    by (simp add: semi_sets_def)
  then show ?thesis by (simp add: semi_results_char)
qed

lemma semi_pair_in_groups:
  assumes "filter (\<lambda>e. matchup_id e = mid) week = [a, b]"
  shows "[a, b] \<in> snd ` set (group_by_matchup week)"
proof -
  have "a \<in> set (filter (\<lambda>e. matchup_id e = mid) week)"
    unfolding assms by simp
  then have "mid \<in> matchup_id ` set week" by auto
  then have "(mid, [a, b]) \<in> set (group_by_matchup week)"
    unfolding group_by_matchup_member using assms by simp
  then show ?thesis by force
qed

lemma semi_pair_contributes:
  assumes "filter (\<lambda>e. matchup_id e = mid) week = [a, b]"
  shows "roster_id (max_points a [b]) \<in> fst (semi_sets (Some week))"
    and "roster_id (min_points a [b]) \<in> snd (semi_sets (Some week))"
  using semi_pair_in_groups [OF assms] unfolding semi_sets_Some by auto

lemma emit_higher_first:
  "py_gt (points a) (points b) \<Longrightarrow>
     emit (Some [a, b]) number place =
       [\<lparr>r = 2, m = number, t1 = roster_id a, t2 = roster_id b,
         w = roster_id a, l = roster_id b, p = place\<rparr>]"
  unfolding emit_pair max_points_pair min_points_pair by (auto dest: py_gt_asym)

lemma emit_higher_second:
  "py_gt (points b) (points a) \<Longrightarrow>
     emit (Some [a, b]) number place =
       [\<lparr>r = 2, m = number, t1 = roster_id b, t2 = roster_id a,
         w = roster_id b, l = roster_id a, p = place\<rparr>]"
  unfolding emit_pair max_points_pair min_points_pair by (auto dest: py_gt_asym)

lemma scenario_semifinal_and_final:
  "determine_placements
     [(15, [\<lparr>roster_id = 1, matchup_id = 1, points = NFloat (Finite 80)\<rparr>,
            \<lparr>roster_id = 2, matchup_id = 1, points = NFloat (Finite 60)\<rparr>,
            \<lparr>roster_id = 3, matchup_id = 2, points = NFloat (Finite 90)\<rparr>,
            \<lparr>roster_id = 4, matchup_id = 2, points = NFloat (Finite 40)\<rparr>]),
      (16, [\<lparr>roster_id = 1, matchup_id = 1, points = NFloat (Finite 70)\<rparr>,
            \<lparr>roster_id = 3, matchup_id = 1, points = NFloat (Finite 65)\<rparr>])]
     14 16 tk =
   [\<lparr>r = 2, m = 1, t1 = 1, t2 = 3, w = 1, l = 3, p = 1\<rparr>]"
  by (simp add: determine_placements_def semi_sets_def group_by_matchup_def add_entry_def
      emit_def py_gt_def py_lt_def Let_def)

text \<open>
  Claim C7, as amended.  With the final week present and non-empty and at least one
  semifinal winner identified: a semifinal matchup of exactly two entries puts its
  higher-scoring entry among the semifinal winners and the other among the semifinal
  losers; the championship pairing is the \<^emph>\<open>last\<close> final-week matchup (in the order in
  which matchup ids first appear) that has exactly two entries, all of them semifinal
  winners, and the third-place pairing is the last one with exactly two entries that are
  all semifinal losers and not all semifinal winners; the higher scorer of a pairing is
  its winner.  For the semifinals \<open>{(R1,80),(R2,60)}\<close>, \<open>{(R3,90),(R4,40)}\<close> and
  the final \<open>{(R1,70),(R3,65)}\<close> the result is the single placement with winner 1,
  loser 3 and placement 1.
\<close>

theorem placements_with_semifinal_winners:
  assumes "select_weeks end_week playoff_matchups (None, None) = (Some final, semifinal)"
    and "final \<noteq> []"
    and "semi_sets semifinal = (semi_winners, semi_losers)"
    and "semi_winners \<noteq> {}"
  shows
    "determine_placements playoff_matchups playoff_start end_week tk =
       emit (last_pairing (\<lambda>pair. length pair = 2 \<and> roster_id ` set pair \<subseteq> semi_winners)
               (group_by_matchup final)) 1 1 @
       emit (last_pairing (\<lambda>pair. length pair = 2 \<and> \<not> roster_id ` set pair \<subseteq> semi_winners
                                     \<and> roster_id ` set pair \<subseteq> semi_losers)
               (group_by_matchup final)) 2 3 \<and>
     (semifinal = Some week \<and> filter (\<lambda>e. matchup_id e = mid) week = [a, b] \<and>
      py_gt (points a) (points b) \<longrightarrow>
        roster_id a \<in> semi_winners \<and> roster_id b \<in> semi_losers) \<and>
     (semifinal = Some week \<and> filter (\<lambda>e. matchup_id e = mid) week = [a, b] \<and>
      py_gt (points b) (points a) \<longrightarrow>
        roster_id b \<in> semi_winners \<and> roster_id a \<in> semi_losers) \<and>
     (py_gt (points a) (points b) \<longrightarrow>
        emit (Some [a, b]) number place =
          [\<lparr>r = 2, m = number, t1 = roster_id a, t2 = roster_id b,
            w = roster_id a, l = roster_id b, p = place\<rparr>]) \<and>
     (py_gt (points b) (points a) \<longrightarrow>
        emit (Some [a, b]) number place =
          [\<lparr>r = 2, m = number, t1 = roster_id b, t2 = roster_id a,
            w = roster_id b, l = roster_id a, p = place\<rparr>]) \<and>
     determine_placements
       [(15, [\<lparr>roster_id = 1, matchup_id = 1, points = NFloat (Finite 80)\<rparr>,
              \<lparr>roster_id = 2, matchup_id = 1, points = NFloat (Finite 60)\<rparr>,
              \<lparr>roster_id = 3, matchup_id = 2, points = NFloat (Finite 90)\<rparr>,
              \<lparr>roster_id = 4, matchup_id = 2, points = NFloat (Finite 40)\<rparr>]),
        (16, [\<lparr>roster_id = 1, matchup_id = 1, points = NFloat (Finite 70)\<rparr>,
              \<lparr>roster_id = 3, matchup_id = 1, points = NFloat (Finite 65)\<rparr>])]
       14 16 tk =
     [\<lparr>r = 2, m = 1, t1 = 1, t2 = 3, w = 1, l = 3, p = 1\<rparr>]"
proof -
  have sw: "fst (semi_sets semifinal) = semi_winners" and sl: "snd (semi_sets semifinal) = semi_losers"
    using assms(3) by simp_all
  have "determine_placements playoff_matchups playoff_start end_week tk =
       emit (last_pairing (\<lambda>pair. length pair = 2 \<and> roster_id ` set pair \<subseteq> semi_winners)
               (group_by_matchup final)) 1 1 @
       emit (last_pairing (\<lambda>pair. length pair = 2 \<and> \<not> roster_id ` set pair \<subseteq> semi_winners
                                     \<and> roster_id ` set pair \<subseteq> semi_losers)
               (group_by_matchup final)) 2 3"
    unfolding determine_placements_unfold [OF assms(1,2)] sw sl
    using assms(4)
    by (simp add: identify_char Let_def emit_None split: option.splits)
  moreover have "semifinal = Some week \<and> filter (\<lambda>e. matchup_id e = mid) week = [a, b] \<and>
      py_gt (points a) (points b) \<longrightarrow>
        roster_id a \<in> semi_winners \<and> roster_id b \<in> semi_losers"
    using semi_pair_contributes [of mid week a b] sw sl
    by (auto simp: max_points_pair min_points_pair dest: py_gt_asym simp del: max_points.simps min_points.simps)
  moreover have "semifinal = Some week \<and> filter (\<lambda>e. matchup_id e = mid) week = [a, b] \<and>
      py_gt (points b) (points a) \<longrightarrow>
        roster_id b \<in> semi_winners \<and> roster_id a \<in> semi_losers"
    using semi_pair_contributes [of mid week a b] sw sl
    by (auto simp: max_points_pair min_points_pair dest: py_gt_asym simp del: max_points.simps min_points.simps)
  moreover note emit_higher_first [where a = a and b = b and number = number and place = place]
  moreover note emit_higher_second [where a = a and b = b and number = number and place = place]
  moreover note scenario_semifinal_and_final [of tk]
  ultimately show ?thesis
    by blast
qed








theorem placements_without_semifinal_winners_witness:
  "select_weeks 16
     [(16, [\<lparr>roster_id = 1, matchup_id = 2, points = NFloat (Finite 10)\<rparr>,
            \<lparr>roster_id = 2, matchup_id = 2, points = NFloat (Finite 20)\<rparr>,
            \<lparr>roster_id = 3, matchup_id = 1, points = NFloat (Finite 7)\<rparr>,
            \<lparr>roster_id = 4, matchup_id = 1, points = NInt 0\<rparr>])] (None, None) =
     (Some [\<lparr>roster_id = 1, matchup_id = 2, points = NFloat (Finite 10)\<rparr>,
            \<lparr>roster_id = 2, matchup_id = 2, points = NFloat (Finite 20)\<rparr>,
            \<lparr>roster_id = 3, matchup_id = 1, points = NFloat (Finite 7)\<rparr>,
            \<lparr>roster_id = 4, matchup_id = 1, points = NInt 0\<rparr>], None) \<and>
   fst (semi_sets None) = {} \<and>
   py_gt (points \<lparr>roster_id = 3, matchup_id = 1, points = NFloat (Finite 7)\<rparr>)
         (points \<lparr>roster_id = 4, matchup_id = 1, points = NInt 0\<rparr>) \<and>
   determine_placements
     [(16, [\<lparr>roster_id = 1, matchup_id = 2, points = NFloat (Finite 10)\<rparr>,
            \<lparr>roster_id = 2, matchup_id = 2, points = NFloat (Finite 20)\<rparr>,
            \<lparr>roster_id = 3, matchup_id = 1, points = NFloat (Finite 7)\<rparr>,
            \<lparr>roster_id = 4, matchup_id = 1, points = NInt 0\<rparr>])] 14 16 () =
     [\<lparr>r = 2, m = 1, t1 = 3, t2 = 4, w = 3, l = 4, p = 1\<rparr>,
      \<lparr>r = 2, m = 2, t1 = 2, t2 = 1, w = 2, l = 1, p = 3\<rparr>]"
proof -
  let ?final = "[\<lparr>roster_id = 1, matchup_id = 2, points = NFloat (Finite 10)\<rparr>,
            \<lparr>roster_id = 2, matchup_id = 2, points = NFloat (Finite 20)\<rparr>,
            \<lparr>roster_id = 3, matchup_id = 1, points = NFloat (Finite 7)\<rparr>,
            \<lparr>roster_id = 4, matchup_id = 1, points = NInt 0\<rparr>]"
  have h1: "select_weeks 16 [(16, ?final)] (None, None) = (Some ?final, None)"
    by simp
  have h2: "?final \<noteq> []" by simp
  have h3: "fst (semi_sets None) = {}" by (simp add: semi_sets_def)
  have ids: "sorted_list_of_set (matchup_id ` set ?final) = [1, 2]"
  proof -
    have "matchup_id ` set ?final = set [2, 2, 1, 1]" by simp
    then show ?thesis
      unfolding sorted_list_of_set_sort_remdups by simp
  qed
  have gt: "py_gt (points \<lparr>roster_id = 3, matchup_id = 1, points = NFloat (Finite 7)\<rparr>)
         (points \<lparr>roster_id = 4, matchup_id = 1, points = NInt 0\<rparr>)"
    by (simp add: py_gt_def)
  have gt2: "py_gt (points \<lparr>roster_id = 2, matchup_id = 2, points = NFloat (Finite 20)\<rparr>)
         (points \<lparr>roster_id = 1, matchup_id = 2, points = NFloat (Finite 10)\<rparr>)"
    by (simp add: py_gt_def)
  note th = placements_without_semifinal_winners [OF h1 h2 h3, of 14 "()"]
  have "determine_placements [(16, ?final)] 14 16 () =
      emit (Some [\<lparr>roster_id = 3, matchup_id = 1, points = NFloat (Finite 7)\<rparr>,
                  \<lparr>roster_id = 4, matchup_id = 1, points = NInt 0\<rparr>]) 1 1 @
      emit (Some [\<lparr>roster_id = 1, matchup_id = 2, points = NFloat (Finite 10)\<rparr>,
                  \<lparr>roster_id = 2, matchup_id = 2, points = NFloat (Finite 20)\<rparr>]) 2 3"
    using th [THEN conjunct1] unfolding ids by (simp add: Let_def)
  moreover have "emit (Some [\<lparr>roster_id = 3, matchup_id = 1, points = NFloat (Finite 7)\<rparr>,
                  \<lparr>roster_id = 4, matchup_id = 1, points = NInt 0\<rparr>]) 1 1 =
       [\<lparr>r = 2, m = 1, t1 = 3, t2 = 4, w = 3, l = 4, p = 1\<rparr>]"
    using th [where a = "\<lparr>roster_id = 3, matchup_id = 1, points = NFloat (Finite 7)\<rparr>"
        and b = "\<lparr>roster_id = 4, matchup_id = 1, points = NInt 0\<rparr>"
        and number = 1 and place = 1] gt
    by simp
  moreover have "emit (Some [\<lparr>roster_id = 1, matchup_id = 2, points = NFloat (Finite 10)\<rparr>,
                  \<lparr>roster_id = 2, matchup_id = 2, points = NFloat (Finite 20)\<rparr>]) 2 3 =
       [\<lparr>r = 2, m = 2, t1 = 2, t2 = 1, w = 2, l = 1, p = 3\<rparr>]"
    using th [where b = "\<lparr>roster_id = 2, matchup_id = 2, points = NFloat (Finite 20)\<rparr>"
        and a = "\<lparr>roster_id = 1, matchup_id = 2, points = NFloat (Finite 10)\<rparr>"
        and number = 2 and place = 3] gt2
    by simp
  ultimately show ?thesis
    using h1 h3 gt by simp
qed


theorem placements_with_semifinal_winners_witness:
  "select_weeks 16
     [(15, [\<lparr>roster_id = 1, matchup_id = 1, points = NFloat (Finite 80)\<rparr>,
            \<lparr>roster_id = 2, matchup_id = 1, points = NFloat (Finite 60)\<rparr>,
            \<lparr>roster_id = 3, matchup_id = 2, points = NFloat (Finite 90)\<rparr>,
            \<lparr>roster_id = 4, matchup_id = 2, points = NFloat (Finite 40)\<rparr>]),
      (16, [\<lparr>roster_id = 1, matchup_id = 1, points = NFloat (Finite 70)\<rparr>,
            \<lparr>roster_id = 3, matchup_id = 1, points = NFloat (Finite 65)\<rparr>])] (None, None) =
     (Some [\<lparr>roster_id = 1, matchup_id = 1, points = NFloat (Finite 70)\<rparr>,
            \<lparr>roster_id = 3, matchup_id = 1, points = NFloat (Finite 65)\<rparr>],
      Some [\<lparr>roster_id = 1, matchup_id = 1, points = NFloat (Finite 80)\<rparr>,
            \<lparr>roster_id = 2, matchup_id = 1, points = NFloat (Finite 60)\<rparr>,
            \<lparr>roster_id = 3, matchup_id = 2, points = NFloat (Finite 90)\<rparr>,
            \<lparr>roster_id = 4, matchup_id = 2, points = NFloat (Finite 40)\<rparr>]) \<and>
   semi_sets
     (Some [\<lparr>roster_id = 1, matchup_id = 1, points = NFloat (Finite 80)\<rparr>,
            \<lparr>roster_id = 2, matchup_id = 1, points = NFloat (Finite 60)\<rparr>,
            \<lparr>roster_id = 3, matchup_id = 2, points = NFloat (Finite 90)\<rparr>,
            \<lparr>roster_id = 4, matchup_id = 2, points = NFloat (Finite 40)\<rparr>]) =
     ({1, 3}, {2, 4}) \<and>
   {1, 3} \<noteq> ({} :: int set) \<and>
   determine_placements
     [(15, [\<lparr>roster_id = 1, matchup_id = 1, points = NFloat (Finite 80)\<rparr>,
            \<lparr>roster_id = 2, matchup_id = 1, points = NFloat (Finite 60)\<rparr>,
            \<lparr>roster_id = 3, matchup_id = 2, points = NFloat (Finite 90)\<rparr>,
            \<lparr>roster_id = 4, matchup_id = 2, points = NFloat (Finite 40)\<rparr>]),
      (16, [\<lparr>roster_id = 1, matchup_id = 1, points = NFloat (Finite 70)\<rparr>,
            \<lparr>roster_id = 3, matchup_id = 1, points = NFloat (Finite 65)\<rparr>])] 14 16 () =
     [\<lparr>r = 2, m = 1, t1 = 1, t2 = 3, w = 1, l = 3, p = 1\<rparr>]"
proof -
  let ?semi = "[\<lparr>roster_id = 1, matchup_id = 1, points = NFloat (Finite 80)\<rparr>,
            \<lparr>roster_id = 2, matchup_id = 1, points = NFloat (Finite 60)\<rparr>,
            \<lparr>roster_id = 3, matchup_id = 2, points = NFloat (Finite 90)\<rparr>,
            \<lparr>roster_id = 4, matchup_id = 2, points = NFloat (Finite 40)\<rparr>]"
  let ?final = "[\<lparr>roster_id = 1, matchup_id = 1, points = NFloat (Finite 70)\<rparr>,
            \<lparr>roster_id = 3, matchup_id = 1, points = NFloat (Finite 65)\<rparr>]"
  have h1: "select_weeks 16 [(15, ?semi), (16, ?final)] (None, None) = (Some ?final, Some ?semi)"
    by simp
  have h2: "?final \<noteq> []" by simp
  have h3: "semi_sets (Some ?semi) = ({1, 3}, {2, 4})"
    by (auto simp: semi_sets_def group_by_matchup_def add_entry_def py_gt_def py_lt_def)
  have h4: "{1, 3} \<noteq> ({} :: int set)" by simp
  note th = placements_with_semifinal_winners [OF h1 h2 h3 h4, of 14 "()"]
  from th have "determine_placements [(15, ?semi), (16, ?final)] 14 16 () =
     [\<lparr>r = 2, m = 1, t1 = 1, t2 = 3, w = 1, l = 3, p = 1\<rparr>]"
    by blast
  with h1 h3 h4 show ?thesis by blast
qed

text \<open>
  Claim C7 as stated fails: with four semifinal matchups, two final-week matchups have
  both participants among the semifinal winners.  The matchup of rosters 1 and 3 does
  not become the championship placement; the later matchup of rosters 5 and 7 does.
\<close>

theorem two_finals_between_semifinal_winners_counterexample:
  "semi_sets
     (Some [\<lparr>roster_id = 1, matchup_id = 1, points = NFloat (Finite 80)\<rparr>,
            \<lparr>roster_id = 2, matchup_id = 1, points = NFloat (Finite 60)\<rparr>,
            \<lparr>roster_id = 3, matchup_id = 2, points = NFloat (Finite 90)\<rparr>,
            \<lparr>roster_id = 4, matchup_id = 2, points = NFloat (Finite 40)\<rparr>,
            \<lparr>roster_id = 5, matchup_id = 3, points = NFloat (Finite 70)\<rparr>,
            \<lparr>roster_id = 6, matchup_id = 3, points = NFloat (Finite 50)\<rparr>,
            \<lparr>roster_id = 7, matchup_id = 4, points = NFloat (Finite 75)\<rparr>,
            \<lparr>roster_id = 8, matchup_id = 4, points = NFloat (Finite 45)\<rparr>]) =
     ({1, 3, 5, 7}, {2, 4, 6, 8}) \<and>
   determine_placements
     [(15, [\<lparr>roster_id = 1, matchup_id = 1, points = NFloat (Finite 80)\<rparr>,
            \<lparr>roster_id = 2, matchup_id = 1, points = NFloat (Finite 60)\<rparr>,
            \<lparr>roster_id = 3, matchup_id = 2, points = NFloat (Finite 90)\<rparr>,
            \<lparr>roster_id = 4, matchup_id = 2, points = NFloat (Finite 40)\<rparr>,
            \<lparr>roster_id = 5, matchup_id = 3, points = NFloat (Finite 70)\<rparr>,
            \<lparr>roster_id = 6, matchup_id = 3, points = NFloat (Finite 50)\<rparr>,
            \<lparr>roster_id = 7, matchup_id = 4, points = NFloat (Finite 75)\<rparr>,
            \<lparr>roster_id = 8, matchup_id = 4, points = NFloat (Finite 45)\<rparr>]),
      (16, [\<lparr>roster_id = 1, matchup_id = 1, points = NFloat (Finite 70)\<rparr>,
            \<lparr>roster_id = 3, matchup_id = 1, points = NFloat (Finite 65)\<rparr>,
            \<lparr>roster_id = 2, matchup_id = 2, points = NFloat (Finite 50)\<rparr>,
            \<lparr>roster_id = 4, matchup_id = 2, points = NFloat (Finite 55)\<rparr>,
            \<lparr>roster_id = 5, matchup_id = 3, points = NFloat (Finite 60)\<rparr>,
            \<lparr>roster_id = 7, matchup_id = 3, points = NFloat (Finite 58)\<rparr>])] 14 16 () =
     [\<lparr>r = 2, m = 1, t1 = 5, t2 = 7, w = 5, l = 7, p = 1\<rparr>,
      \<lparr>r = 2, m = 2, t1 = 4, t2 = 2, w = 4, l = 2, p = 3\<rparr>]"
  by (auto simp: determine_placements_def semi_sets_def group_by_matchup_def add_entry_def
      emit_def py_gt_def py_lt_def Let_def)


section \<open>Properties of the weekly scoreboard\<close>


lemma match_teams_loop_ids:
  "match_teams_loop bi tk tim mid ts acc = Some res \<Longrightarrow>
     \<forall>e \<in> set acc. matchup_id e = mid \<Longrightarrow> \<forall>e \<in> set res. matchup_id e = mid"
proof (induction ts arbitrary: acc)
  case Nil
  then show ?case by simp
next
  case (Cons t ts)
  from Cons.prems(1) show ?case
    by (auto simp: bind_eq_Some_conv split: if_splits prod.splits
        dest!: Cons.IH intro: Cons.prems(2)[rule_format])
qed

lemma parse_matchup_ids:
  "parse_matchup bi tk md i mid = Some mt \<Longrightarrow> \<forall>e \<in> set mt. matchup_id e = mid"
  unfolding parse_matchup_def
  by (auto simp: bind_eq_Some_conv split: if_splits dest!: match_teams_loop_ids)

lemma matchups_loop_ids:
  "\<exists>n. n \<le> length is \<and>
     map matchup_id (matchups_loop bi tk md is ms k) = map matchup_id ms @ pairs_from k n"
proof (induction "is" arbitrary: ms k)
  case Nil
  show ?case by (rule exI [of _ 0]) simp
next
  case (Cons i "is")
  show ?case
  proof (cases "parse_matchup bi tk md i k")
    case None
    then show ?thesis by (intro exI [of _ 0]) simp
  next
    case (Some mt)
    show ?thesis
    proof (cases "length mt = 2")
      case True
      then obtain a b where mt: "mt = [a, b]"
        by (cases mt; cases "tl mt") auto
      have ids: "matchup_id a = k" "matchup_id b = k"
        using parse_matchup_ids [OF Some] by (simp_all add: mt)
      from Cons.IH [of "ms @ mt" "k + 1"] obtain n where
        n: "n \<le> length is"
          "map matchup_id (matchups_loop bi tk md is (ms @ mt) (k + 1)) =
             map matchup_id (ms @ mt) @ pairs_from (k + 1) n"
        by blast
      have eq: "matchups_loop bi tk md (i # is) ms k = matchups_loop bi tk md is (ms @ mt) (k + 1)"
        by (simp add: Some True)
      have "map matchup_id (matchups_loop bi tk md (i # is) ms k) =
          map matchup_id ms @ pairs_from k (Suc n)"
        unfolding eq n(2) by (simp add: mt ids)
      with n(1) show ?thesis
        by (intro exI [of _ "Suc n"]) simp
    next
      case False
      from Cons.IH [of ms k] obtain n where
        "n \<le> length is"
          "map matchup_id (matchups_loop bi tk md is ms k) = map matchup_id ms @ pairs_from k n"
        by blast
      then show ?thesis
        by (intro exI [of _ n]) (simp add: Some False)
    qed
  qed
qed

lemma length_pairs_from: "length (pairs_from k n) = 2 * n"
  by (induction n arbitrary: k) simp_all

lemma set_pairs_from: "set (pairs_from k n) = {k ..< k + int n}"
  by (induction n arbitrary: k) auto

lemma count_pairs_from:
  "length (filter (\<lambda>x. x = j) (pairs_from k n)) = (if k \<le> j \<and> j < k + int n then 2 else 0)"
proof (induction n arbitrary: k)
  case 0
  show ?case by simp
next
  case (Suc n)
  show ?case
    using Suc.IH [of "k + 1"] by (auto split: if_splits)
qed

lemma parse_scoreboard_ids:
  "\<exists>n. map matchup_id (parse_scoreboard bi data tk) = pairs_from 1 n"
proof (cases "locate_matchups data")
  case None
  then show ?thesis by (intro exI [of _ 0]) (simp add: parse_scoreboard_def)
next
  case (Some found)
  show ?thesis
  proof (cases found)
    case None
    with Some show ?thesis by (intro exI [of _ 0]) (simp add: parse_scoreboard_def)
  next
    case (Some md_is)
    obtain md "is" where "md_is = (md, is)" by (cases md_is)
    with Some \<open>locate_matchups data = Some found\<close>
    have "parse_scoreboard bi data tk = matchups_loop bi tk md is [] 1"
      by (simp add: parse_scoreboard_def)
    with matchups_loop_ids [of "is" bi tk md "[]" 1] show ?thesis by auto
  qed
qed

lemma filter_map_count:
  "length (filter (\<lambda>x. f x = j) xs) = length (filter (\<lambda>y. y = j) (map f xs))"
  by (induction xs) auto


lemmas py_eval =
  parse_scoreboard_def locate_matchups_def parse_matchup_def dget_def str_nat.simps digit_def
  upt_conv_Cons



lemma three_team_scenario:
  "parse_scoreboard bi (scoreboard_of three_team_matchups) tk = []"
  by (simp add: py_eval scoreboard_of_def three_team_matchups_def)

text \<open>
  Claim C4.  \<^verbatim>\<open>_parse_scoreboard\<close> returns a list for every input (an exception
  inside it is caught, and the model's result is a plain list).  The matchup ids of the
  result are \<open>1, 1, 2, 2, \<dots>, n, n\<close> for some \<open>n\<close>: the length is even, ids
  start at 1 and grow by one per emitted matchup, and every entry has exactly one
  partner with its matchup id (the id occurs exactly twice).  A matchup whose number
  of resolved teams is not two leaves the collected matchups and the next id
  unchanged, and the loop goes on.  A response with one matchup of three teams gives
  the empty list.
\<close>

theorem parse_scoreboard_paired:
  "(\<exists>n. map matchup_id (parse_scoreboard bi data tk) = pairs_from 1 n \<and>
        length (parse_scoreboard bi data tk) = 2 * n) \<and>
   even (length (parse_scoreboard bi data tk)) \<and>
   (\<forall>e \<in> set (parse_scoreboard bi data tk).
      length (filter (\<lambda>x. matchup_id x = matchup_id e) (parse_scoreboard bi data tk)) = 2) \<and>
   (parse_matchup bi tk md i k = Some mt \<and> length mt \<noteq> 2 \<longrightarrow>
      matchups_loop bi tk md (i # rest) ms k = matchups_loop bi tk md rest ms k) \<and>
   parse_scoreboard bi (scoreboard_of three_team_matchups) tk = []"
proof -
  obtain n where n: "map matchup_id (parse_scoreboard bi data tk) = pairs_from 1 n"
    using parse_scoreboard_ids by blast
  have len: "length (parse_scoreboard bi data tk) = 2 * n"
    using arg_cong [OF n, of length] by (simp add: length_pairs_from)
  have partner: "length (filter (\<lambda>x. matchup_id x = matchup_id e) (parse_scoreboard bi data tk)) = 2"
    if "e \<in> set (parse_scoreboard bi data tk)" for e
  proof -
    have "matchup_id e \<in> set (pairs_from 1 n)"
      using that n by (metis image_eqI list.set_map)
    then have "1 \<le> matchup_id e \<and> matchup_id e < 1 + int n"
      by (simp add: set_pairs_from)
    then have "length (filter (\<lambda>y. y = matchup_id e) (pairs_from 1 n)) = 2"
      by (simp add: count_pairs_from)
    then show ?thesis
      using filter_map_count [of matchup_id "matchup_id e" "parse_scoreboard bi data tk"]
      by (simp only: n)
  qed
  have skip: "parse_matchup bi tk md i k = Some mt \<and> length mt \<noteq> 2 \<longrightarrow>
      matchups_loop bi tk md (i # rest) ms k = matchups_loop bi tk md rest ms k"
    by simp
  from n len partner skip three_team_scenario [of bi tk] show ?thesis
    by (intro conjI ballI) auto
qed

theorem parse_scoreboard_paired_witness:
  "parse_scoreboard plain_builtins (scoreboard_of two_team_matchups) [(JStr ''B'', 1), (JStr ''A'', 2)] =
     [\<lparr>roster_id = 2, matchup_id = 1, points = NFloat (Finite 10)\<rparr>,
      \<lparr>roster_id = 1, matchup_id = 1, points = NFloat (Finite 20)\<rparr>] \<and>
   length (filter (\<lambda>x. matchup_id x = 1)
     (parse_scoreboard plain_builtins (scoreboard_of two_team_matchups)
        [(JStr ''B'', 1), (JStr ''A'', 2)])) = 2 \<and>
   parse_matchup plain_builtins [(JStr ''B'', 1), (JStr ''A'', 2)] three_team_matchups 0 1 =
     Some [\<lparr>roster_id = 2, matchup_id = 1, points = NFloat (Finite 10)\<rparr>,
           \<lparr>roster_id = 1, matchup_id = 1, points = NFloat (Finite 20)\<rparr>,
           \<lparr>roster_id = 3, matchup_id = 1, points = NFloat (Finite 30)\<rparr>] \<and>
   matchups_loop plain_builtins [(JStr ''B'', 1), (JStr ''A'', 2)] three_team_matchups [0] [] 1 =
     matchups_loop plain_builtins [(JStr ''B'', 1), (JStr ''A'', 2)] three_team_matchups [] [] 1"
proof -
  let ?tk = "[(JStr ''B'', 1 :: int), (JStr ''A'', 2)]"
  let ?mt = "[\<lparr>roster_id = 2, matchup_id = 1, points = NFloat (Finite 10)\<rparr>,
           \<lparr>roster_id = 1, matchup_id = 1, points = NFloat (Finite 20)\<rparr>,
           \<lparr>roster_id = 3, matchup_id = 1, points = NFloat (Finite 30)\<rparr>]"
  have two: "parse_scoreboard plain_builtins (scoreboard_of two_team_matchups) ?tk =
     [\<lparr>roster_id = 2, matchup_id = 1, points = NFloat (Finite 10)\<rparr>,
      \<lparr>roster_id = 1, matchup_id = 1, points = NFloat (Finite 20)\<rparr>]"
    by (simp add: py_eval scoreboard_of_def two_team_matchups_def)
  have three: "parse_matchup plain_builtins ?tk three_team_matchups 0 1 = Some ?mt"
    by (simp add: py_eval three_team_matchups_def)
  note th = parse_scoreboard_paired [where bi = plain_builtins
      and data = "scoreboard_of two_team_matchups" and tk = ?tk and md = three_team_matchups
      and i = 0 and k = 1 and mt = ?mt and rest = "[]" and ms = "[]"]
  from th have "length (filter (\<lambda>x. matchup_id x = 1)
     (parse_scoreboard plain_builtins (scoreboard_of two_team_matchups) ?tk)) = 2"
    unfolding two by simp
  moreover from th three have "matchups_loop plain_builtins ?tk three_team_matchups [0] [] 1 =
     matchups_loop plain_builtins ?tk three_team_matchups [] [] 1"
    by simp
  ultimately show ?thesis using two three by simp
qed



section \<open>Properties of the season assembly\<close>

lemma extract_season_data_Some:
  assumes "extract_season_data bi lg settings_response standings_response scoreboard_response = Some s"
  obtains settings_data num_teams playoff_start end_week standings_data league_info teams
    teams_sorted us ros roster_to_owner tk
  where "settings_response = Some settings_data"
    and "effective_settings bi settings_data = Some (num_teams, playoff_start, end_week)"
    and "standings_response = Some standings_data"
    and "parse_standings bi standings_data = Some (league_info, teams)"
    and "sort_teams bi teams = Some teams_sorted"
    and "build_rosters bi (league_key lg) 0 teams_sorted ([], [], []) = Some (us, ros, roster_to_owner)"
    and "build_key_map 0 teams_sorted [] = Some tk"
    and "s = \<lparr>league_id = league_key lg, league_name = name lg, league_season = season lg,
              total_rosters = length teams, playoff_week_start = playoff_start,
              users = us, rosters = ros,
              matchups = map (\<lambda>week. week_matchups bi tk (scoreboard_response week))
                           [1..playoff_start - 1],
              winnersBracket = build_bracket_from_rankings roster_to_owner,
              rosterToOwner = map (\<lambda>kv. (str_int (fst kv), snd kv)) roster_to_owner\<rparr>"
  using assms
  unfolding extract_season_data_def assemble_season_def
  by (auto simp: bind_eq_Some_conv Let_def split: prod.splits)

lemma extract_season_data_other_scoreboards:
  assumes "extract_season_data bi lg settings_response standings_response scoreboard_response = Some s"
  shows "extract_season_data bi lg settings_response standings_response other \<noteq> None"
proof -
  from assms obtain settings_data num_teams playoff_start end_week standings_data league_info teams
    teams_sorted us ros roster_to_owner tk
  where "settings_response = Some settings_data"
    and "effective_settings bi settings_data = Some (num_teams, playoff_start, end_week)"
    and "standings_response = Some standings_data"
    and "parse_standings bi standings_data = Some (league_info, teams)"
    and "sort_teams bi teams = Some teams_sorted"
    and "build_rosters bi (league_key lg) 0 teams_sorted ([], [], []) = Some (us, ros, roster_to_owner)"
    and "build_key_map 0 teams_sorted [] = Some tk"
    by (rule extract_season_data_Some)
  then show ?thesis
    unfolding extract_season_data_def assemble_season_def
    by (simp add: Let_def)
qed

lemma week_matchups_cases:
  "week_matchups bi tk None = []"
  "locate_matchups data = None \<Longrightarrow> week_matchups bi tk (Some data) = []"
  "locate_matchups data = Some None \<Longrightarrow> week_matchups bi tk (Some data) = []"
  "locate_matchups data = Some (Some (md, is)) \<Longrightarrow>
     week_matchups bi tk (Some data) = matchups_loop bi tk md is [] 1"
  by (simp_all add: week_matchups_def parse_scoreboard_def)

text \<open>
  Claim C5, as amended.  For every assembled season the \<^verbatim>\<open>matchups\<close> field has
  \<open>max 0 (playoff_start_week - 1)\<close> elements, which is
  \<open>playoff_start_week - 1\<close> whenever the playoff start week is at least 1; the
  element at position \<open>week - 1\<close> is the list of week \<open>week\<close>, for the weeks
  \<open>1 .. playoff_start_week - 1\<close> in order.  The scoreboard responses never abort
  the season: with any other responses the season is assembled as well.  A week whose
  request raises contributes the empty list, and so does a week whose response raises
  or returns before the matchup loop is reached.  Inside the loop, a matchup that
  raises ends the week with the matchups collected before it, which need not be none.
\<close>

theorem weekly_matchups_aligned:
  assumes "extract_season_data bi lg settings_response standings_response scoreboard_response = Some s"
  shows
    "length (matchups s) = nat (playoff_week_start s - 1) \<and>
     (1 \<le> playoff_week_start s \<longrightarrow> int (length (matchups s)) = playoff_week_start s - 1) \<and>
     (\<exists>tk. \<forall>week. 1 \<le> week \<and> week \<le> playoff_week_start s - 1 \<longrightarrow>
        matchups s ! nat (week - 1) = week_matchups bi tk (scoreboard_response week)) \<and>
     extract_season_data bi lg settings_response standings_response other \<noteq> None \<and>
     week_matchups bi tk' None = [] \<and>
     (locate_matchups data = None \<or> locate_matchups data = Some None \<longrightarrow>
        week_matchups bi tk' (Some data) = []) \<and>
     (locate_matchups data = Some (Some (md, indices)) \<longrightarrow>
        week_matchups bi tk' (Some data) = matchups_loop bi tk' md indices [] 1) \<and>
     (parse_matchup bi tk' md i k = None \<longrightarrow>
        matchups_loop bi tk' md (i # rest) ms k = ms)"
proof -
  from assms obtain playoff_start tk
    where s: "playoff_week_start s = playoff_start"
      "matchups s = map (\<lambda>week. week_matchups bi tk (scoreboard_response week)) [1..playoff_start - 1]"
    by (rule extract_season_data_Some) (simp, blast)
  have len: "length (matchups s) = nat (playoff_week_start s - 1)"
    by (simp add: s)
  have nth: "matchups s ! nat (week - 1) = week_matchups bi tk (scoreboard_response week)"
    if "1 \<le> week \<and> week \<le> playoff_week_start s - 1" for week
  proof -
    have "nat (week - 1) < length [1..playoff_start - 1]"
      using that by (simp add: s)
    moreover have "[1..playoff_start - 1] ! nat (week - 1) = week"
      using that by (simp add: s)
    ultimately show ?thesis by (simp add: s del: length_upto)
  qed
  from len nth extract_season_data_other_scoreboards [OF assms, of other]
  show ?thesis
    by (intro conjI impI exI [of _ tk] allI) (auto simp: week_matchups_cases)
qed



text \<open>
  Claim C5 as stated fails for a week whose parse fails: in the response
  \<open>scoreboard_of broken_second_matchups\<close> the second matchup raises, and the week
  contributes the two entries of the first matchup, not the empty list.
\<close>

theorem broken_matchup_keeps_earlier_counterexample:
  "parse_matchup plain_builtins [] broken_second_matchups 1 2 = None \<and>
   week_matchups plain_builtins [] (Some (scoreboard_of broken_second_matchups)) =
     [\<lparr>roster_id = 1, matchup_id = 1, points = NFloat (Finite 10)\<rparr>,
      \<lparr>roster_id = 2, matchup_id = 1, points = NFloat (Finite 20)\<rparr>]"
  by code_simp

text \<open>Two assembled seasons, evaluated.\<close>

lemma example_two_team_season:
  "extract_season_data plain_builtins example_league (Some (JDict [])) (Some two_team_standings)
     first_week_only =
   Some two_team_season"
  unfolding two_team_season_def by code_simp

lemma example_six_entry_season:
  "extract_season_data plain_builtins example_league (Some (JDict [])) (Some six_entry_standings)
     no_scoreboard =
   Some six_entry_season"
  unfolding six_entry_season_def by code_simp

theorem weekly_matchups_aligned_witness:
  "extract_season_data plain_builtins example_league (Some (JDict []))
     (Some two_team_standings) first_week_only = Some two_team_season \<and>
   1 \<le> playoff_week_start two_team_season \<and>
   length (matchups two_team_season) = 13 \<and>
   matchups two_team_season ! 0 =
     [\<lparr>roster_id = 1, matchup_id = 1, points = NFloat (Finite 10)\<rparr>,
      \<lparr>roster_id = 2, matchup_id = 1, points = NFloat (Finite 20)\<rparr>] \<and>
   matchups two_team_season ! 1 = [] \<and>
   extract_season_data plain_builtins example_league (Some (JDict []))
     (Some two_team_standings) no_scoreboard \<noteq> None"
  using weekly_matchups_aligned [OF example_two_team_season, of no_scoreboard]
    example_two_team_season
  by (simp add: two_team_season_def)



lemma those_map_Some:
  "those (map f xs) = Some ys \<Longrightarrow> ys = map (\<lambda>x. the (f x)) xs \<and> (\<forall>x \<in> set xs. f x \<noteq> None)"
  by (induction xs arbitrary: ys) (auto split: option.splits)

lemma those_map_all_Some:
  "\<forall>x \<in> set xs. f x \<noteq> None \<Longrightarrow> those (map f xs) = Some (map (\<lambda>x. the (f x)) xs)"
  by (induction xs) auto

lemma insort_key_decorated:
  "insort_key fst (f x, x) (map (\<lambda>y. (f y, y)) ys) = map (\<lambda>y. (f y, y)) (insort_key f x ys)"
  by (induction ys) auto

lemma sort_key_decorated:
  "sort_key fst (map (\<lambda>y. (f y, y)) xs) = map (\<lambda>y. (f y, y)) (sort_key f xs)"
  by (induction xs) (simp_all add: insort_key_decorated)

lemma zip_map_self: "zip (map f xs) xs = map (\<lambda>y. (f y, y)) xs"
  by (induction xs) auto

lemma sort_teams_Some:
  assumes "sort_teams bi teams = Some teams_sorted"
  shows "teams_sorted = sort_key (\<lambda>t. the (rank_key bi t)) teams"
    and "\<forall>t \<in> set teams. rank_key bi t \<noteq> None"
proof -
  from assms obtain keys where keys: "those (map (rank_key bi) teams) = Some keys"
    and ts: "teams_sorted = map snd (sort_key fst (zip keys teams))"
    by (auto simp: sort_teams_def bind_eq_Some_conv)
  from those_map_Some [OF keys] have k: "keys = map (\<lambda>t. the (rank_key bi t)) teams"
    and all: "\<forall>t \<in> set teams. rank_key bi t \<noteq> None"
    by simp_all
  show "teams_sorted = sort_key (\<lambda>t. the (rank_key bi t)) teams"
    unfolding ts k zip_map_self sort_key_decorated by (simp add: comp_def)
  show "\<forall>t \<in> set teams. rank_key bi t \<noteq> None" by (rule all)
qed

lemma sort_teams_props:
  assumes "sort_teams bi teams = Some teams_sorted"
  shows "mset teams_sorted = mset teams"
    and "\<exists>keys. those (map (rank_key bi) teams_sorted) = Some keys \<and> sorted keys"
    and "filter (\<lambda>t. rank_key bi t = Some k) teams_sorted =
           filter (\<lambda>t. rank_key bi t = Some k) teams"
    and "length teams_sorted = length teams"
proof -
  note ts = sort_teams_Some(1) [OF assms] and all = sort_teams_Some(2) [OF assms]
  show "mset teams_sorted = mset teams" by (simp add: ts)
  show "length teams_sorted = length teams" by (simp add: ts)
  have all': "\<forall>t \<in> set teams_sorted. rank_key bi t \<noteq> None"
    using all by (simp add: ts)
  have "those (map (rank_key bi) teams_sorted) = Some (map (\<lambda>t. the (rank_key bi t)) teams_sorted)"
    by (rule those_map_all_Some [OF all'])
  moreover have "sorted (map (\<lambda>t. the (rank_key bi t)) teams_sorted)"
    unfolding ts by (rule sorted_sort_key)
  ultimately show "\<exists>keys. those (map (rank_key bi) teams_sorted) = Some keys \<and> sorted keys"
    by blast
  have eq: "(rank_key bi t = Some k) = (the (rank_key bi t) = k)" if "t \<in> set teams" for t
    using all that by auto
  have "filter (\<lambda>t. rank_key bi t = Some k) teams_sorted =
      filter (\<lambda>t. the (rank_key bi t) = k) teams_sorted"
    by (rule filter_cong) (simp_all add: eq ts)
  also have "\<dots> = filter (\<lambda>t. the (rank_key bi t) = k) teams"
    unfolding ts by (rule sort_key_stable)
  also have "\<dots> = filter (\<lambda>t. rank_key bi t = Some k) teams"
    by (rule filter_cong) (simp_all add: eq)
  finally show "filter (\<lambda>t. rank_key bi t = Some k) teams_sorted =
           filter (\<lambda>t. rank_key bi t = Some k) teams" .
qed


lemma mk_roster_fields:
  "mk_roster bi lkey idx team = Some ro \<Longrightarrow>
     roster_roster_id ro = int idx + 1 \<and> owner_id ro = manager_id_of bi idx team \<and>
     roster_league_id ro = lkey"
  by (auto simp: mk_roster_def bind_eq_Some_conv)

lemma build_rosters_char:
  "build_rosters bi lkey idx ts (us, ros, r2o) = Some (us', ros', r2o') \<Longrightarrow>
     us' = us @ map (\<lambda>i. mk_user bi (idx + i) (ts ! i)) [0..<length ts] \<and>
     (\<exists>rs. ros' = ros @ rs \<and>
        map Some rs = map (\<lambda>i. mk_roster bi lkey (idx + i) (ts ! i)) [0..<length ts])"
proof (induction ts arbitrary: idx us ros r2o)
  case Nil
  then show ?case by simp
next
  case (Cons team rest)
  from Cons.prems obtain ro where ro: "mk_roster bi lkey idx team = Some ro"
    and rec: "build_rosters bi lkey (Suc idx) rest
        (us @ [mk_user bi idx team], ros @ [ro],
         AList.update (int idx + 1) (manager_id_of bi idx team) r2o) = Some (us', ros', r2o')"
    by (auto simp: bind_eq_Some_conv)
  from Cons.IH [OF rec] obtain rs where
    us': "us' = (us @ [mk_user bi idx team]) @
            map (\<lambda>i. mk_user bi (Suc idx + i) (rest ! i)) [0..<length rest]"
    and ros': "ros' = (ros @ [ro]) @ rs"
    and rs: "map Some rs = map (\<lambda>i. mk_roster bi lkey (Suc idx + i) (rest ! i)) [0..<length rest]"
    by blast
  have "us' = us @ map (\<lambda>i. mk_user bi (idx + i) ((team # rest) ! i)) [0..<length (team # rest)]"
    unfolding us' by (simp add: map_upt_Suc del: upt_Suc)
  moreover have "ros' = ros @ (ro # rs)"
    unfolding ros' by simp
  moreover have "map Some (ro # rs) =
      map (\<lambda>i. mk_roster bi lkey (idx + i) ((team # rest) ! i)) [0..<length (team # rest)]"
    using rs ro by (simp add: map_upt_Suc del: upt_Suc)
  ultimately show ?case by blast
qed

lemma build_rosters_nth:
  assumes "build_rosters bi lkey 0 ts ([], [], []) = Some (us, ros, r2o)"
  shows "length us = length ts" and "length ros = length ts"
    and "\<forall>i < length ts. us ! i = mk_user bi i (ts ! i)"
    and "\<forall>i < length ts. mk_roster bi lkey i (ts ! i) = Some (ros ! i)"
proof -
  from build_rosters_char [OF assms] have us: "us = map (\<lambda>i. mk_user bi i (ts ! i)) [0..<length ts]"
    and ros: "map Some ros = map (\<lambda>i. mk_roster bi lkey i (ts ! i)) [0..<length ts]"
    by auto
  show "length us = length ts" by (simp add: us)
  show len: "length ros = length ts"
    using arg_cong [OF ros, of length] by simp
  show "\<forall>i < length ts. us ! i = mk_user bi i (ts ! i)" by (simp add: us)
  show "\<forall>i < length ts. mk_roster bi lkey i (ts ! i) = Some (ros ! i)"
  proof (intro allI impI)
    fix i assume i: "i < length ts"
    have "map Some ros ! i = Some (ros ! i)" using i len by simp
    moreover have "map (\<lambda>i. mk_roster bi lkey i (ts ! i)) [0..<length ts] ! i =
        mk_roster bi lkey i (ts ! i)" using i by simp
    ultimately show "mk_roster bi lkey i (ts ! i) = Some (ros ! i)"
      using ros by simp
  qed
qed















lemma mk_user_id: "user_id (mk_user bi idx team) = manager_id_of bi idx team"
  by (simp add: mk_user_def)

text \<open>
  Claim C3, as amended.  In every assembled season the users list has exactly one
  user per team, in roster order: it is as long as the rosters list, the user at
  position \<open>i\<close> is built from the team at position \<open>i\<close> of the sorted teams
  (its display name, avatar and team name), and its user id is the owner id of the
  roster at that position.  Teams that share a manager id each have their own user
  entry.
\<close>

theorem one_user_per_team:
  assumes "extract_season_data bi lg settings_response standings_response scoreboard_response = Some s"
  shows "length (users s) = total_rosters s \<and>
     length (users s) = length (rosters s) \<and>
     (\<forall>i < length (users s). user_id (users s ! i) = owner_id (rosters s ! i)) \<and>
     (\<exists>standings_data league_info teams teams_sorted.
        standings_response = Some standings_data \<and>
        parse_standings bi standings_data = Some (league_info, teams) \<and>
        sort_teams bi teams = Some teams_sorted \<and>
        users s = map (\<lambda>i. mk_user bi i (teams_sorted ! i)) [0..<length teams_sorted])"
proof -
  from assms obtain standings_data league_info teams teams_sorted us ros roster_to_owner
    where sr: "standings_response = Some standings_data"
      and ps: "parse_standings bi standings_data = Some (league_info, teams)"
      and st: "sort_teams bi teams = Some teams_sorted"
      and br: "build_rosters bi (league_key lg) 0 teams_sorted ([], [], []) =
                 Some (us, ros, roster_to_owner)"
      and s: "total_rosters s = length teams" "rosters s = ros" "users s = us"
    by (rule extract_season_data_Some) simp
  note len = sort_teams_props(4) [OF st]
  note bn = build_rosters_nth [OF br]
  have us: "users s = map (\<lambda>i. mk_user bi i (teams_sorted ! i)) [0..<length teams_sorted]"
    by (rule nth_equalityI) (simp_all add: s bn)
  have same: "user_id (users s ! i) = owner_id (rosters s ! i)" if "i < length (users s)" for i
  proof -
    from that have i: "i < length teams_sorted" by (simp add: s bn)
    with bn(4) have "mk_roster bi (league_key lg) i (teams_sorted ! i) = Some (ros ! i)" by simp
    from mk_roster_fields [OF this] bn(3) i show ?thesis
      by (simp add: s mk_user_id)
  qed
  from sr ps st us same show ?thesis
    by (auto simp: s bn len)
qed

theorem one_user_per_team_witness:
  "extract_season_data plain_builtins example_league (Some (JDict [])) (Some six_entry_standings)
     no_scoreboard = Some six_entry_season \<and>
   length (users six_entry_season) = 5 \<and>
   length (rosters six_entry_season) = 5 \<and>
   map user_id (users six_entry_season) = map owner_id (rosters six_entry_season)"
  using one_user_per_team [OF example_six_entry_season] example_six_entry_season
  by (simp add: six_entry_season_def)

text \<open>
  Claim C3 as stated fails: in \<open>six_entry_standings\<close> the teams A and B share the
  manager guid G (and C and D the empty guid), and the users list has an entry for
  each of them.
\<close>

theorem shared_manager_two_users_counterexample:
  "extract_season_data plain_builtins example_league (Some (JDict [])) (Some six_entry_standings)
     no_scoreboard = Some six_entry_season \<and>
   map user_id (users six_entry_season) =
     [JStr ''G'', JStr ''G'', JStr [], JStr [], JStr ''yahoo_E''] \<and>
   map display_name (users six_entry_season) =
     [JStr ''Bob'', JStr ''Ann'', JStr ''Cy'', JStr ''Di'', JStr ''Manager 5'']"
  using example_six_entry_season by (simp add: six_entry_season_def)

text \<open>
  Claim C10.  The manager id of a team is the value stored under
  \<^verbatim>\<open>manager_guid\<close> whenever the key is present, whatever the value; the
  synthesized id \<^verbatim>\<open>yahoo_\<close> followed by the team key is used only when the key is
  absent.  When the first manager of a team has manager info without a guid,
  \<^verbatim>\<open>_parse_team_entry\<close> stores the empty string under \<^verbatim>\<open>manager_guid\<close>.  In
  an assembled season the user id and the owner id at every position are that manager
  id, so every team whose stored guid is the empty string has the owner id \<open>''\<close>.
\<close>

theorem manager_id_fallback:
  "(map_of team ''manager_guid'' = Some guid \<longrightarrow> manager_id_of bi idx team = guid) \<and>
   (map_of team ''manager_guid'' = None \<longrightarrow>
      manager_id_of bi idx team =
        JStr (''yahoo_'' @ py_str bi (dget team ''team_key'' (JInt (int idx))))) \<and>
   (map_of sub ''managers'' = Some (JList (JDict mgr # others)) \<and>
    map_of mgr ''manager'' = Some (JDict mgr_data) \<and> map_of mgr_data ''guid'' = None \<longrightarrow>
      (\<exists>team'. manager_info sub team = Some team' \<and>
         map_of team' ''manager_guid'' = Some (JStr []))) \<and>
   (extract_season_data bi lg settings_response standings_response scoreboard_response = Some s
      \<longrightarrow>
      (\<exists>standings_data league_info teams teams_sorted.
         standings_response = Some standings_data \<and>
         parse_standings bi standings_data = Some (league_info, teams) \<and>
         sort_teams bi teams = Some teams_sorted \<and>
         length (users s) = length teams_sorted \<and> length (rosters s) = length teams_sorted \<and>
         (\<forall>i < length teams_sorted.
            user_id (users s ! i) = manager_id_of bi i (teams_sorted ! i) \<and>
            owner_id (rosters s ! i) = manager_id_of bi i (teams_sorted ! i) \<and>
            (map_of (teams_sorted ! i) ''manager_guid'' = Some (JStr []) \<longrightarrow>
               user_id (users s ! i) = JStr [] \<and> owner_id (rosters s ! i) = JStr []))))"
proof -
  have a: "map_of team ''manager_guid'' = Some guid \<longrightarrow> manager_id_of bi idx team = guid"
    by (simp add: manager_id_of_def dget_def)
  have b: "map_of team ''manager_guid'' = None \<longrightarrow>
      manager_id_of bi idx team =
        JStr (''yahoo_'' @ py_str bi (dget team ''team_key'' (JInt (int idx))))"
    by (simp add: manager_id_of_def dget_def)
  have c: "map_of sub ''managers'' = Some (JList (JDict mgr # others)) \<and>
    map_of mgr ''manager'' = Some (JDict mgr_data) \<and> map_of mgr_data ''guid'' = None \<longrightarrow>
      (\<exists>team'. manager_info sub team = Some team' \<and>
         map_of team' ''manager_guid'' = Some (JStr []))"
    by (simp add: manager_info_def dget_def update_conv')
  have d: "\<exists>standings_data league_info teams teams_sorted.
         standings_response = Some standings_data \<and>
         parse_standings bi standings_data = Some (league_info, teams) \<and>
         sort_teams bi teams = Some teams_sorted \<and>
         length (users s) = length teams_sorted \<and> length (rosters s) = length teams_sorted \<and>
         (\<forall>i < length teams_sorted.
            user_id (users s ! i) = manager_id_of bi i (teams_sorted ! i) \<and>
            owner_id (rosters s ! i) = manager_id_of bi i (teams_sorted ! i) \<and>
            (map_of (teams_sorted ! i) ''manager_guid'' = Some (JStr []) \<longrightarrow>
               user_id (users s ! i) = JStr [] \<and> owner_id (rosters s ! i) = JStr []))"
    if ex: "extract_season_data bi lg settings_response standings_response scoreboard_response = Some s"
  proof -
    from ex obtain standings_data league_info teams teams_sorted us ros roster_to_owner
      where sr: "standings_response = Some standings_data"
        and ps: "parse_standings bi standings_data = Some (league_info, teams)"
        and st: "sort_teams bi teams = Some teams_sorted"
        and br: "build_rosters bi (league_key lg) 0 teams_sorted ([], [], []) =
                   Some (us, ros, roster_to_owner)"
        and s: "rosters s = ros" "users s = us"
      by (rule extract_season_data_Some) simp
    note bn = build_rosters_nth [OF br]
    have ids: "user_id (users s ! i) = manager_id_of bi i (teams_sorted ! i) \<and>
            owner_id (rosters s ! i) = manager_id_of bi i (teams_sorted ! i)"
      if i: "i < length teams_sorted" for i
    proof -
      from bn(4) i have "mk_roster bi (league_key lg) i (teams_sorted ! i) = Some (ros ! i)" by simp
      from mk_roster_fields [OF this] bn(3) i show ?thesis
        by (simp add: s mk_user_id)
    qed
    have "\<forall>i < length teams_sorted.
            user_id (users s ! i) = manager_id_of bi i (teams_sorted ! i) \<and>
            owner_id (rosters s ! i) = manager_id_of bi i (teams_sorted ! i) \<and>
            (map_of (teams_sorted ! i) ''manager_guid'' = Some (JStr []) \<longrightarrow>
               user_id (users s ! i) = JStr [] \<and> owner_id (rosters s ! i) = JStr [])"
      using ids by (simp add: manager_id_of_def dget_def)
    with sr ps st show ?thesis
      by (auto simp: s bn)
  qed
  from a b c d show ?thesis by blast
qed

theorem manager_id_fallback_witness:
  "extract_season_data plain_builtins example_league (Some (JDict [])) (Some six_entry_standings)
     no_scoreboard = Some six_entry_season \<and>
   map owner_id (rosters six_entry_season) =
     [JStr ''G'', JStr ''G'', JStr [], JStr [], JStr ''yahoo_E''] \<and>
   map user_id (users six_entry_season) = map owner_id (rosters six_entry_season) \<and>
   manager_info
     [(''managers'', JList [JDict [(''manager'', JDict [(''nickname'', JStr ''Cy'')])]])]
     [(''team_key'', JStr ''C'')] =
     Some [(''team_key'', JStr ''C''), (''manager_name'', JStr ''Cy''),
           (''manager_guid'', JStr [])] \<and>
   manager_id_of plain_builtins 2
     [(''team_key'', JStr ''C''), (''manager_name'', JStr ''Cy''), (''manager_guid'', JStr [])] =
     JStr [] \<and>
   manager_id_of plain_builtins 4 [(''team_key'', JStr ''E'')] = JStr ''yahoo_E''"
  using manager_id_fallback [where bi = plain_builtins and lg = example_league
      and settings_response = "Some (JDict [])" and standings_response = "Some six_entry_standings"
      and scoreboard_response = no_scoreboard and s = six_entry_season
      and team = "[(''team_key'', JStr ''C''), (''manager_name'', JStr ''Cy''),
           (''manager_guid'', JStr [])]" and guid = "JStr []" and idx = 2
      and sub = "[(''managers'', JList [JDict [(''manager'', JDict [(''nickname'', JStr ''Cy'')])]])]"
      and mgr = "[(''manager'', JDict [(''nickname'', JStr ''Cy'')])]" and others = "[]"
      and mgr_data = "[(''nickname'', JStr ''Cy'')]"]
    example_six_entry_season
  by (simp add: six_entry_season_def manager_info_def manager_id_of_def dget_def)



section \<open>Properties of the league settings\<close>














end
